theory Spec2Isabelle
  imports Complex_Main "HOL-Library.Sublist" "HOL-Library.Word"
begin

unbundle bit_operations_syntax

section \<open>The production server (express application)\<close>

text \<open>
  The server keeps its players in a MongoDB collection with a unique index on
  \<open>playerId\<close>; the collection is a finite map here. Dates are milliseconds since the
  epoch. JSON numbers are exact rationals: the rounding of JavaScript's double
  arithmetic is not part of this model, every sum and product below is exact.
  Database operations never fail once the connection exists.
\<close>

subsection \<open>JavaScript values of request fields\<close>

datatype jsval =
    JUndefined
  | JNull
  | JBool bool
  | JNum rat
  | JStr string
  | JObject string  \<comment> \<open>an object or array, kept as its JSON text\<close>

text \<open>\<open>!x\<close> is the negation of \<open>truthy x\<close>.\<close>

fun truthy :: "jsval \<Rightarrow> bool" where
  "truthy JUndefined = False"
| "truthy JNull = False"
| "truthy (JBool b) = b"
| "truthy (JNum n) = (n \<noteq> 0)"
| "truthy (JStr s) = (s \<noteq> [])"
| "truthy (JObject _) = True"

text \<open>\<open>typeof x === 'string' ? x.substring(0, n) : d\<close>\<close>

fun string_prefix_or :: "nat \<Rightarrow> 'a \<Rightarrow> (string \<Rightarrow> 'a) \<Rightarrow> jsval \<Rightarrow> 'a" where
  "string_prefix_or n d f (JStr s) = f (take n s)"
| "string_prefix_or n d f _ = d"

subsection \<open>Configuration (deploy-config.js)\<close>

record config =
  apiKey :: string
  databaseEnabled :: bool
  maxCoinsPerMinute :: int
  maxXpPerMinute :: int
  maxTamperingAttempts :: int
  warningMessage :: string
  terminalMessage :: string
  banDuration :: int

text \<open>The values the configuration file takes when no environment variable is set.\<close>

definition deployConfig :: config where
  "deployConfig =
     \<lparr> apiKey = ''change-me-in-production'',
       databaseEnabled = True,
       maxCoinsPerMinute = 1000,
       maxXpPerMinute = 500,
       maxTamperingAttempts = 3,
       warningMessage = ''Security violation detected.'',
       terminalMessage = ''Your access has been suspended due to security violations.'',
       banDuration = 24 * 60 * 60 * 1000 \<rparr>"

subsection \<open>Game data and player records\<close>

text \<open>
  The value of \<open>newValues.powerups\<close>: absent, null, an array of strings, a string, or
  any other value (a number, a boolean, a plain object), which has no \<open>includes\<close>.
\<close>

datatype powerups_val =
    PAbsent
  | PNull
  | PArray "string list"
  | PString string
  | POther

text \<open>
  \<open>gameData\<close> and the proposed \<open>gameValues\<close> are JSON objects. The keys that the
  verifier reads hold numbers when present; all remaining keys are kept with their
  JSON text.
\<close>

record game_values =
  health :: "rat option"
  maxHealth :: "rat option"
  healthRegenRate :: "rat option"
  coins :: "rat option"
  xp :: "rat option"
  powerups :: powerups_val
  lastUpdated :: "int option"  \<comment> \<open>the key \<open>_lastUpdated\<close>\<close>
  otherKeys :: "(string \<times> string) list"

definition no_values :: game_values where
  "no_values =
     \<lparr> health = None, maxHealth = None, healthRegenRate = None, coins = None, xp = None,
       powerups = PAbsent, lastUpdated = None, otherKeys = [] \<rparr>"

text \<open>\<open>Object.keys(g).length === 0\<close>\<close>

definition no_keys :: "game_values \<Rightarrow> bool" where
  "no_keys g \<longleftrightarrow>
     health g = None \<and> maxHealth g = None \<and> healthRegenRate g = None \<and> coins g = None \<and>
     xp g = None \<and> powerups g = PAbsent \<and> lastUpdated g = None \<and> otherKeys g = []"

datatype js_error = TypeError

datatype reason =
    InvalidClientTimestamp
  | InvalidClientTimestampFormat
  | TimestampTooFarInFuture
  | HealthExceedsMaximum
  | HealthIncreasedTooFast rat rat  \<comment> \<open>the increase, the minutes\<close>
  | CoinsIncreasedTooFast rat rat
  | XpIncreasedTooFast rat rat


datatype tamper_entry =
    ReportEntry string string string  \<comment> \<open>timestamp, type, severity\<close>
  | InvalidSyncEntry int reason jsval  \<comment> \<open>timestamp, reason, sessionId\<close>

record player =
  playerId :: string
  deviceId :: string
  created :: int
  lastSeen :: int
  gameData :: "game_values option"
  tamperingAttempts :: int
  isBanned :: bool
  banTimestamp :: "int option"
  lastSync :: "int option"
  tampering :: "tamper_entry list"

record sanitizedData =
  sd_id :: string
  sd_serverTimestamp :: string
  sd_clientTimestamp :: jsval
  sd_severity :: string
  sd_type :: string
  sd_deviceId :: string
  sd_playerId :: "string option"
  sd_appVersion :: "string option"
  sd_details :: jsval

record sync_log =
  sl_playerId :: string
  sl_sessionId :: jsval
  sl_timestamp :: int
  sl_values :: game_values

record database =
  players :: "string \<rightharpoonup> player"
  tampering_logs :: "sanitizedData list"
  sync_logs :: "sync_log list"

text \<open>The server: the database handle (absent until connected) and the backup log file.\<close>

record server =
  db :: "database option"
  tamperingFile :: "sanitizedData list"

subsection \<open>Responses\<close>

datatype payload =
    ErrorBody string
  | TamperBan string int string  \<comment> \<open>message, duration, requestId; action ban\<close>
  | TamperWarn string string  \<comment> \<open>message, requestId; action warn\<close>
  | PlayerMessage string string
  | SyncBan string  \<comment> \<open>message; action ban, status invalid\<close>
  | SyncInvalid string reason "game_values option"  \<comment> \<open>message, reason, serverValues\<close>
  | SyncValid int game_values  \<comment> \<open>serverTimestamp, verifiedValues\<close>

record response =
  status :: nat
  body :: payload

fun action :: "payload \<Rightarrow> string option" where
  "action (TamperBan _ _ _) = Some ''ban''"
| "action (TamperWarn _ _) = Some ''warn''"
| "action (SyncBan _) = Some ''ban''"
| "action _ = None"

definition json :: "nat \<Rightarrow> payload \<Rightarrow> response" where
  "json c b = \<lparr> status = c, body = b \<rparr>"

subsection \<open>Middleware\<close>

text \<open>\<open>validateApiKey\<close>: true when \<open>next()\<close> is called, false when 401 is sent.\<close>

definition validateApiKey :: "config \<Rightarrow> string option \<Rightarrow> bool" where
  "validateApiKey cfg hdr =
     (case hdr of
        None \<Rightarrow> False
      | Some k \<Rightarrow> \<not> (k = [] \<or> k \<noteq> apiKey cfg))"

definition unauthorized :: response where
  "unauthorized = json 401 (ErrorBody ''Unauthorized access'')"

text \<open>\<open>checkDatabaseConnection\<close>: true when \<open>next()\<close> is called, false when 503 is sent.\<close>

definition checkDatabaseConnection :: "config \<Rightarrow> server \<Rightarrow> bool" where
  "checkDatabaseConnection cfg srv =
     (if \<not> databaseEnabled cfg then True
      else if db srv = None then False
      else True)"

definition unavailable :: response where
  "unavailable = json 503 (ErrorBody ''Database service unavailable'')"

subsection \<open>POST /api/log-tampering\<close>

record tampering_body =
  tb_type :: jsval
  tb_severity :: jsval
  tb_deviceId :: jsval
  tb_playerId :: jsval
  tb_appVersion :: jsval
  tb_timestamp :: jsval
  tb_details :: jsval

definition known_severities :: "string list" where
  "known_severities = [''low'', ''medium'', ''high'', ''critical'']"

text \<open>\<open>[...].includes(x) ? x : 'unknown'\<close>: only a string can be a member.\<close>

fun sanitize_severity :: "jsval \<Rightarrow> string" where
  "sanitize_severity (JStr s) = (if s \<in> set known_severities then s else ''unknown'')"
| "sanitize_severity _ = ''unknown''"

definition sanitize :: "string \<Rightarrow> string \<Rightarrow> tampering_body \<Rightarrow> sanitizedData" where
  "sanitize uuid nowIso t =
     \<lparr> sd_id = uuid,
       sd_serverTimestamp = nowIso,
       sd_clientTimestamp = (if truthy (tb_timestamp t) then tb_timestamp t else JStr nowIso),
       sd_severity = sanitize_severity (tb_severity t),
       sd_type = string_prefix_or 50 ''unknown'' (\<lambda>s. s) (tb_type t),
       sd_deviceId = string_prefix_or 100 ''unknown'' (\<lambda>s. s) (tb_deviceId t),
       sd_playerId = string_prefix_or 100 None Some (tb_playerId t),
       sd_appVersion = string_prefix_or 20 None Some (tb_appVersion t),
       sd_details = (if truthy (tb_details t) then tb_details t else JObject ''{}'') \<rparr>"

text \<open>
  \<open>updateOne({playerId}, {$inc: {tamperingAttempts: 1}, $push: {tampering: e}})\<close>:
  nothing happens when no player has the id.
\<close>

definition inc_tampering :: "string \<Rightarrow> tamper_entry \<Rightarrow> database \<Rightarrow> database" where
  "inc_tampering pid e d =
     (case players d pid of
        None \<Rightarrow> d
      | Some p \<Rightarrow>
          d\<lparr>players := (players d)(pid \<mapsto>
               p\<lparr>tamperingAttempts := tamperingAttempts p + 1,
                 tampering := tampering p @ [e]\<rparr>)\<rparr>)"

text \<open>The insert into \<open>tampering_logs\<close> and, for a non-empty player id, the counter update.\<close>

definition store_report :: "sanitizedData \<Rightarrow> database \<Rightarrow> database" where
  "store_report sd d =
     (let d1 = d\<lparr>tampering_logs := tampering_logs d @ [sd]\<rparr>
      in case sd_playerId sd of
           None \<Rightarrow> d1
         | Some pid \<Rightarrow>
             if pid = [] then d1
             else inc_tampering pid
                    (ReportEntry (sd_serverTimestamp sd) (sd_type sd) (sd_severity sd)) d1)"

text \<open>
  The handler, after \<open>validateApiKey\<close>. The request body is \<open>None\<close> when it is falsy or
  not an object. \<open>uuid\<close> is the result of \<open>uuidv4()\<close>, \<open>nowIso\<close> that of
  \<open>new Date().toISOString()\<close>.
\<close>

definition log_tampering_handler ::
  "config \<Rightarrow> string \<Rightarrow> string \<Rightarrow> tampering_body option \<Rightarrow> server \<Rightarrow> response \<times> server" where
  "log_tampering_handler cfg uuid nowIso req srv =
     (case req of
        None \<Rightarrow> (json 400 (ErrorBody ''Invalid request body''), srv)
      | Some tamperingData \<Rightarrow>
          let sd = sanitize uuid nowIso tamperingData;
              srv1 = srv\<lparr>db := map_option (store_report sd) (db srv)\<rparr>;
              srv2 = srv1\<lparr>tamperingFile := tamperingFile srv1 @ [sd]\<rparr>
          in if sd_severity sd = ''critical''
             then (json 403 (TamperBan (terminalMessage cfg) (banDuration cfg) (sd_id sd)), srv2)
             else (json 200 (TamperWarn (warningMessage cfg) (sd_id sd)), srv2))"

text \<open>The route: \<open>app.post('/api/log-tampering', validateApiKey, handler)\<close>.\<close>

definition log_tampering ::
  "config \<Rightarrow> string \<Rightarrow> string \<Rightarrow> string option \<Rightarrow> tampering_body option \<Rightarrow> server
     \<Rightarrow> response \<times> server" where
  "log_tampering cfg uuid nowIso hdr req srv =
     (if validateApiKey cfg hdr then log_tampering_handler cfg uuid nowIso req srv
      else (unauthorized, srv))"

subsection \<open>POST /api/register-player\<close>

record register_body =
  rb_playerId :: jsval
  rb_deviceId :: jsval
  rb_initialData :: "game_values option"  \<comment> \<open>\<open>None\<close>: falsy or not an object\<close>

text \<open>\<open>!x || typeof x !== 'string' || x.length > 100\<close>, with the string when the test fails.\<close>

fun short_id :: "jsval \<Rightarrow> string option" where
  "short_id (JStr s) = (if s = [] \<or> length s > 100 then None else Some s)"
| "short_id _ = None"

definition register_player_handler ::
  "config \<Rightarrow> int \<Rightarrow> register_body option \<Rightarrow> server \<Rightarrow> response \<times> server" where
  "register_player_handler cfg now req srv =
     (case req of
        None \<Rightarrow> (json 500 (ErrorBody ''Internal server error''), srv)
      | Some b \<Rightarrow>
          (case short_id (rb_playerId b) of
             None \<Rightarrow> (json 400 (ErrorBody ''Invalid player ID''), srv)
           | Some pid \<Rightarrow>
               (case short_id (rb_deviceId b) of
                  None \<Rightarrow> (json 400 (ErrorBody ''Invalid device ID''), srv)
                | Some dev \<Rightarrow>
                    let safeInitialData =
                          (case rb_initialData b of Some g \<Rightarrow> g | None \<Rightarrow> no_values)
                    in (case db srv of
                         None \<Rightarrow> (json 500 (ErrorBody ''Failed to register player''), srv)
                       | Some d \<Rightarrow>
                           (case players d pid of
                              Some existingPlayer \<Rightarrow>
                                (json 200 (PlayerMessage ''Player updated'' pid),
                                 srv\<lparr>db := Some (d\<lparr>players := (players d)(pid \<mapsto>
                                   existingPlayer\<lparr>lastSeen := now, deviceId := dev\<rparr>)\<rparr>)\<rparr>)
                            | None \<Rightarrow>
                                let newPlayer =
                                      \<lparr> playerId = pid, deviceId = dev, created = now,
                                        lastSeen = now, gameData = Some safeInitialData,
                                        tamperingAttempts = 0, isBanned = False,
                                        banTimestamp = None, lastSync = None, tampering = [] \<rparr>
                                in (json 201 (PlayerMessage ''Player registered'' pid),
                                    srv\<lparr>db := Some (d\<lparr>players :=
                                      (players d)(pid \<mapsto> newPlayer)\<rparr>)\<rparr>))))))"

definition register_player ::
  "config \<Rightarrow> int \<Rightarrow> string option \<Rightarrow> register_body option \<Rightarrow> server \<Rightarrow> response \<times> server" where
  "register_player cfg now hdr req srv =
     (if \<not> validateApiKey cfg hdr then (unauthorized, srv)
      else if \<not> checkDatabaseConnection cfg srv then (unavailable, srv)
      else register_player_handler cfg now req srv)"

subsection \<open>verifyGameValues\<close>

text \<open>
  \<open>new Date(clientTimestamp)\<close>: a time value, an Invalid Date (\<open>getTime()\<close> is NaN),
  or an exception raised by the conversion.
\<close>

datatype client_ts = ParsedTime int | InvalidDate | DateThrows

datatype verification = Valid | Invalid reason

fun isValid :: "verification \<Rightarrow> bool" where
  "isValid Valid = True"
| "isValid (Invalid _) = False"

text \<open>\<open>x || d\<close> for a number or undefined \<open>x\<close>: zero and undefined are falsy.\<close>

fun or_default :: "rat option \<Rightarrow> rat \<Rightarrow> rat" where
  "or_default None d = d"
| "or_default (Some x) d = (if x = 0 then d else x)"

text \<open>
  \<open>!newValues.powerups?.includes('health')\<close>. The optional chain yields undefined on
  undefined and null; an array looks for the element, a string for the substring; any
  other value has no method \<open>includes\<close> and the call raises.
\<close>

fun no_health_powerup :: "powerups_val \<Rightarrow> js_error + bool" where
  "no_health_powerup PAbsent = Inr True"
| "no_health_powerup PNull = Inr True"
| "no_health_powerup (PArray xs) = Inr (''health'' \<notin> set xs)"
| "no_health_powerup (PString s) = Inr (\<not> sublist ''health'' s)"
| "no_health_powerup POther = Inl TypeError"

text \<open>\<open>a && b\<close>, where \<open>b\<close> is evaluated only when \<open>a\<close> holds.\<close>

definition and_then :: "bool \<Rightarrow> js_error + bool \<Rightarrow> js_error + bool" where
  "and_then a b = (if a then b else Inr False)"

text \<open>\<open>new Date(player.lastSync || player.created)\<close>: a stored Date is always truthy.\<close>

definition lastSyncTime :: "player \<Rightarrow> int" where
  "lastSyncTime p = (case lastSync p of Some t \<Rightarrow> t | None \<Rightarrow> created p)"

text \<open>\<open>Math.max(0, (clientTime - lastSyncTime) / 60000)\<close>\<close>

definition timeDiffMinutes :: "player \<Rightarrow> int \<Rightarrow> rat" where
  "timeDiffMinutes p clientTime = max 0 (of_int (clientTime - lastSyncTime p) / 60000)"

text \<open>The block \<open>// Check health\<close>: the reason of its first \<open>return\<close>, if any.\<close>

definition check_health :: "game_values \<Rightarrow> game_values \<Rightarrow> rat \<Rightarrow> js_error + reason option" where
  "check_health gd newValues t =
     (case (health newValues, health gd) of
        (Some nh, Some h0) \<Rightarrow>
          let maxH = or_default (maxHealth gd) 100
          in (case and_then (nh > maxH) (no_health_powerup (powerups newValues)) of
                Inl e \<Rightarrow> Inl e
              | Inr True \<Rightarrow> Inr (Some HealthExceedsMaximum)
              | Inr False \<Rightarrow>
                  let maxRegen = or_default (healthRegenRate gd) 5;
                      maxPossibleHealthIncrease = maxRegen * t
                  in (case and_then (nh > h0 \<and> h0 < maxH \<and> nh > h0 + maxPossibleHealthIncrease)
                             (no_health_powerup (powerups newValues)) of
                        Inl e \<Rightarrow> Inl e
                      | Inr True \<Rightarrow> Inr (Some (HealthIncreasedTooFast (nh - h0) t))
                      | Inr False \<Rightarrow> Inr None))
      | _ \<Rightarrow> Inr None)"

text \<open>The block \<open>// Check coins/currency\<close>.\<close>

definition check_coins :: "config \<Rightarrow> game_values \<Rightarrow> game_values \<Rightarrow> rat \<Rightarrow> reason option" where
  "check_coins cfg gd newValues t =
     (case (coins newValues, coins gd) of
        (Some c, Some c0) \<Rightarrow>
          let maxPossibleIncrease = of_int (maxCoinsPerMinute cfg) * t
          in if c > c0 + maxPossibleIncrease then Some (CoinsIncreasedTooFast (c - c0) t)
             else None
      | _ \<Rightarrow> None)"

text \<open>The block \<open>// Check experience points\<close>.\<close>

definition check_xp :: "config \<Rightarrow> game_values \<Rightarrow> game_values \<Rightarrow> rat \<Rightarrow> reason option" where
  "check_xp cfg gd newValues t =
     (case (xp newValues, xp gd) of
        (Some x, Some x0) \<Rightarrow>
          let maxPossibleXP = of_int (maxXpPerMinute cfg) * t
          in if x > x0 + maxPossibleXP then Some (XpIncreasedTooFast (x - x0) t)
             else None
      | _ \<Rightarrow> None)"

text \<open>
  The function receives the player object by reference. It is returned next to the
  result, as the caller sees it after the call: no statement of the function assigns to
  it. \<open>currentTime\<close> is the function's own \<open>new Date()\<close>; the checksum is never read.
\<close>

definition verifyGameValues ::
  "config \<Rightarrow> int \<Rightarrow> player \<Rightarrow> game_values \<Rightarrow> client_ts \<Rightarrow> jsval
     \<Rightarrow> (js_error + verification) \<times> player" where
  "verifyGameValues cfg currentTime p newValues clientTimestamp clientChecksum =
     ((case gameData p of
         None \<Rightarrow> Inr Valid
       | Some gd \<Rightarrow>
           if no_keys gd then Inr Valid
           else
             (case clientTimestamp of
                DateThrows \<Rightarrow> Inr (Invalid InvalidClientTimestampFormat)
              | InvalidDate \<Rightarrow> Inr (Invalid InvalidClientTimestamp)
              | ParsedTime clientTime \<Rightarrow>
                  if clientTime > currentTime + 5 * 60 * 1000
                  then Inr (Invalid TimestampTooFarInFuture)
                  else
                    let t = timeDiffMinutes p clientTime
                    in (case check_health gd newValues t of
                          Inl e \<Rightarrow> Inl e
                        | Inr (Some r) \<Rightarrow> Inr (Invalid r)
                        | Inr None \<Rightarrow>
                            (case check_coins cfg gd newValues t of
                               Some r \<Rightarrow> Inr (Invalid r)
                             | None \<Rightarrow>
                                 (case check_xp cfg gd newValues t of
                                    Some r \<Rightarrow> Inr (Invalid r)
                                  | None \<Rightarrow> Inr Valid))))),
      p)"

subsection \<open>POST /api/sync-game-values\<close>

record sync_body =
  sb_playerId :: jsval
  sb_sessionId :: jsval
  sb_gameValues :: "game_values option"  \<comment> \<open>\<open>None\<close>: falsy or not an object\<close>
  sb_clientTimestamp :: client_ts  \<comment> \<open>the field as \<open>new Date\<close> reads it\<close>
  sb_checksum :: jsval

text \<open>The string \<open>x\<close> when \<open>!x || typeof x !== 'string'\<close> is false.\<close>

fun nonempty_string :: "jsval \<Rightarrow> string option" where
  "nonempty_string (JStr s) = (if s = [] then None else Some s)"
| "nonempty_string _ = None"

text \<open>\<open>{...a, ...b}\<close> on one key: the right operand wins where it has the key.\<close>

fun spread_key :: "'a option \<Rightarrow> 'a option \<Rightarrow> 'a option" where
  "spread_key a (Some v) = Some v"
| "spread_key a None = a"

fun spread_other :: "(string \<times> string) list \<Rightarrow> (string \<times> string) list \<Rightarrow> (string \<times> string) list" where
  "spread_other a [] = a"
| "spread_other a ((k, v) # b) =
     spread_other (if k \<in> fst ` set a then map (\<lambda>(k', v'). if k' = k then (k', v) else (k', v')) a
                   else a @ [(k, v)]) b"

text \<open>\<open>{...player.gameData, ...gameValues, _lastUpdated: serverTimestamp}\<close>\<close>

definition updatedData :: "game_values option \<Rightarrow> game_values \<Rightarrow> int \<Rightarrow> game_values" where
  "updatedData old new serverTimestamp =
     (let g = (case old of Some g \<Rightarrow> g | None \<Rightarrow> no_values)
      in \<lparr> health = spread_key (health g) (health new),
           maxHealth = spread_key (maxHealth g) (maxHealth new),
           healthRegenRate = spread_key (healthRegenRate g) (healthRegenRate new),
           coins = spread_key (coins g) (coins new),
           xp = spread_key (xp g) (xp new),
           powerups = (if powerups new = PAbsent then powerups g else powerups new),
           lastUpdated = Some serverTimestamp,
           otherKeys = spread_other (otherKeys g) (otherKeys new) \<rparr>)"

text \<open>\<open>updateOne({playerId}, {$set: {isBanned: true, banTimestamp: serverTimestamp}})\<close>\<close>

definition ban_player :: "string \<Rightarrow> int \<Rightarrow> database \<Rightarrow> database" where
  "ban_player pid serverTimestamp d =
     (case players d pid of
        None \<Rightarrow> d
      | Some p \<Rightarrow>
          d\<lparr>players := (players d)(pid \<mapsto>
               p\<lparr>isBanned := True, banTimestamp := Some serverTimestamp\<rparr>)\<rparr>)"

text \<open>\<open>updateOne({playerId}, {$set: {gameData: updatedData, lastSync: serverTimestamp}})\<close>\<close>

definition set_game_data :: "string \<Rightarrow> game_values \<Rightarrow> int \<Rightarrow> database \<Rightarrow> database" where
  "set_game_data pid g serverTimestamp d =
     (case players d pid of
        None \<Rightarrow> d
      | Some p \<Rightarrow>
          d\<lparr>players := (players d)(pid \<mapsto>
               p\<lparr>gameData := Some g, lastSync := Some serverTimestamp\<rparr>)\<rparr>)"

text \<open>
  The handler, after both middlewares. \<open>serverTimestamp\<close> is the handler's
  \<open>new Date()\<close>, \<open>currentTime\<close> the one \<open>verifyGameValues\<close> takes right after.
\<close>

definition sync_game_values_handler ::
  "config \<Rightarrow> int \<Rightarrow> int \<Rightarrow> sync_body option \<Rightarrow> server \<Rightarrow> response \<times> server" where
  "sync_game_values_handler cfg serverTimestamp currentTime req srv =
     (case req of
        None \<Rightarrow> (json 500 (ErrorBody ''Internal server error''), srv)
      | Some b \<Rightarrow>
          (case nonempty_string (sb_playerId b) of
             None \<Rightarrow> (json 400 (ErrorBody ''Invalid player ID''), srv)
           | Some pid \<Rightarrow>
               (case sb_gameValues b of
                  None \<Rightarrow> (json 400 (ErrorBody ''Invalid game values''), srv)
                | Some gameValues \<Rightarrow>
                    (case db srv of
                       None \<Rightarrow> (json 500 (ErrorBody ''Failed to sync game values''), srv)
                     | Some d \<Rightarrow>
                         (case players d pid of
                            None \<Rightarrow> (json 404 (ErrorBody ''Player not found''), srv)
                          | Some p \<Rightarrow>
                              if isBanned p
                              then (json 403 (ErrorBody ''Account suspended''), srv)
                              else
                                (case verifyGameValues cfg currentTime p gameValues
                                        (sb_clientTimestamp b) (sb_checksum b) of
                                   (Inl e, p1) \<Rightarrow>
                                     (json 500 (ErrorBody ''Failed to sync game values''), srv)
                                 | (Inr (Invalid r), p1) \<Rightarrow>
                                     let d1 = inc_tampering pid
                                                (InvalidSyncEntry serverTimestamp r (sb_sessionId b)) d
                                     in (case players d1 pid of
                                           None \<Rightarrow>
                                             (json 500 (ErrorBody ''Failed to sync game values''),
                                              srv\<lparr>db := Some d1\<rparr>)
                                         | Some updatedPlayer \<Rightarrow>
                                             if tamperingAttempts updatedPlayer
                                                  \<ge> maxTamperingAttempts cfg
                                             then (json 403 (SyncBan (terminalMessage cfg)),
                                                   srv\<lparr>db := Some (ban_player pid serverTimestamp d1)\<rparr>)
                                             else (json 200 (SyncInvalid (warningMessage cfg) r
                                                               (gameData p1)),
                                                   srv\<lparr>db := Some d1\<rparr>))
                                 | (Inr Valid, p1) \<Rightarrow>
                                     let u = updatedData (gameData p1) gameValues serverTimestamp;
                                         d1 = set_game_data pid u serverTimestamp d;
                                         d2 = d1\<lparr>sync_logs := sync_logs d1 @
                                                [\<lparr> sl_playerId = pid, sl_sessionId = sb_sessionId b,
                                                   sl_timestamp = serverTimestamp,
                                                   sl_values = gameValues \<rparr>]\<rparr>
                                     in (json 200 (SyncValid serverTimestamp u),
                                         srv\<lparr>db := Some d2\<rparr>)))))))"

definition sync_game_values ::
  "config \<Rightarrow> int \<Rightarrow> int \<Rightarrow> string option \<Rightarrow> sync_body option \<Rightarrow> server \<Rightarrow> response \<times> server" where
  "sync_game_values cfg serverTimestamp currentTime hdr req srv =
     (if \<not> validateApiKey cfg hdr then (unauthorized, srv)
      else if \<not> checkDatabaseConnection cfg srv then (unavailable, srv)
      else sync_game_values_handler cfg serverTimestamp currentTime req srv)"

subsection \<open>Sequences of requests\<close>

datatype request =
    LogTampering string string "string option" "tampering_body option"
  | RegisterPlayer int "string option" "register_body option"
  | SyncGameValues int int "string option" "sync_body option"

fun serve :: "config \<Rightarrow> request \<Rightarrow> server \<Rightarrow> response \<times> server" where
  "serve cfg (LogTampering uuid nowIso hdr b) srv = log_tampering cfg uuid nowIso hdr b srv"
| "serve cfg (RegisterPlayer now hdr b) srv = register_player cfg now hdr b srv"
| "serve cfg (SyncGameValues ts now hdr b) srv = sync_game_values cfg ts now hdr b srv"

text \<open>The server after a list of requests, each served to completion before the next.\<close>

fun serve_all :: "config \<Rightarrow> request list \<Rightarrow> server \<Rightarrow> server" where
  "serve_all cfg [] srv = srv"
| "serve_all cfg (r # rs) srv = serve_all cfg rs (snd (serve cfg r srv))"

section \<open>GameValue, the protected container\<close>

text \<open>
  A container holds a JavaScript value. Numbers, strings, booleans, null and undefined are
  immediate; an array or an object is a reference into a heap of cells, so that two
  references can share a cell and a write through one is seen through the other.
  Numbers are integers (their text is the decimal numeral), characters are code units
  below 256, the keys of an object are distinct.
\<close>

type_synonym addr = nat

datatype jv = VUndefined | VNull | VBool bool | VNum int | VStr string | VRef addr

datatype hobj = HArray "jv list" | HObject "(string \<times> jv) list"

type_synonym heap = "hobj list"

text \<open>The value a reference stands for, read off the heap as a tree.\<close>

datatype tree = TUndefined | TNull | TBool bool | TNum int | TStr string
  | TArr "tree list" | TObj "(string \<times> tree) list"

text \<open>The results of a list of steps, or the first error.\<close>

fun sequence :: "('e + 'a) list \<Rightarrow> 'e + 'a list" where
  "sequence [] = Inr []"
| "sequence (Inl e # rs) = Inl e"
| "sequence (Inr x # rs) = (case sequence rs of Inl e \<Rightarrow> Inl e | Inr xs \<Rightarrow> Inr (x # xs))"

text \<open>
  \<open>snapshot h stk v\<close> walks the cells reachable from \<open>v\<close>. \<open>stk\<close> holds the
  cells being walked: meeting one of them again is a cycle, where \<open>JSON.stringify\<close>
  raises a TypeError. An address outside the heap does not occur in JavaScript.
\<close>

function snapshot :: "heap \<Rightarrow> addr list \<Rightarrow> jv \<Rightarrow> js_error + tree" where
  "snapshot h stk VUndefined = Inr TUndefined"
| "snapshot h stk VNull = Inr TNull"
| "snapshot h stk (VBool b) = Inr (TBool b)"
| "snapshot h stk (VNum n) = Inr (TNum n)"
| "snapshot h stk (VStr s) = Inr (TStr s)"
| "snapshot h stk (VRef a) =
     (if a \<in> set stk \<or> length h \<le> a then Inl TypeError
      else case h ! a of
             HArray vs \<Rightarrow>
               (case sequence (map (\<lambda>v. snapshot h (a # stk) v) vs) of
                  Inl e \<Rightarrow> Inl e
                | Inr ts \<Rightarrow> Inr (TArr ts))
           | HObject ps \<Rightarrow>
               (case sequence (map (\<lambda>p. snapshot h (a # stk) (snd p)) ps) of
                  Inl e \<Rightarrow> Inl e
                | Inr ts \<Rightarrow> Inr (TObj (zip (map fst ps) ts))))"
  by pat_completeness auto
termination
proof (relation "measure (\<lambda>(h, stk, v). length h - card (set stk \<inter> {..<length h}))")
  show "wf (measure (\<lambda>(h, stk, v). length h - card (set stk \<inter> {..<length h})))" by simp
next
  fix h :: heap and stk a x2 
  assume a: "\<not> (a \<in> set stk \<or> length h \<le> a)"
  have "card (set stk \<inter> {..<length h}) < card (set (a # stk) \<inter> {..<length h})"
    using a by (intro psubset_card_mono) auto
  moreover have "card (set (a # stk) \<inter> {..<length h}) \<le> card {..<length h}"
    by (intro card_mono) auto
  ultimately have "length h - card (set (a # stk) \<inter> {..<length h}) < length h - card (set stk \<inter> {..<length h})"
    by simp
  then show "\<And>x. ((h, a # stk, x), h, stk, VRef a) \<in> measure (\<lambda>(h, stk, v). length h - card (set stk \<inter> {..<length h}))"
    and "\<And>x. ((h, a # stk, snd x), h, stk, VRef a) \<in> measure (\<lambda>(h, stk, v). length h - card (set stk \<inter> {..<length h}))"
    by simp_all
qed

text \<open>Building a value from a tree in fresh cells, as \<open>JSON.parse\<close> does.\<close>

fun alloc :: "tree \<Rightarrow> heap \<Rightarrow> jv \<times> heap"
  and alloc_list :: "tree list \<Rightarrow> heap \<Rightarrow> jv list \<times> heap" 
  and alloc_props :: "(string \<times> tree) list \<Rightarrow> heap \<Rightarrow> (string \<times> jv) list \<times> heap" where
  "alloc TUndefined h = (VUndefined, h)"
| "alloc TNull h = (VNull, h)"
| "alloc (TBool b) h = (VBool b, h)"
| "alloc (TNum n) h = (VNum n, h)"
| "alloc (TStr s) h = (VStr s, h)"
| "alloc (TArr ts) h = (case alloc_list ts h of (vs, h1) \<Rightarrow> (VRef (length h1), h1 @ [HArray vs]))"
| "alloc (TObj ps) h = (case alloc_props ps h of (qs, h1) \<Rightarrow> (VRef (length h1), h1 @ [HObject qs]))"
| "alloc_list [] h = ([], h)"
| "alloc_list (t # ts) h =
     (case alloc t h of (v, h1) \<Rightarrow> (case alloc_list ts h1 of (vs, h2) \<Rightarrow> (v # vs, h2)))"
| "alloc_props [] h = ([], h)"
| "alloc_props ((k, t) # ps) h =
     (case alloc t h of (v, h1) \<Rightarrow> (case alloc_props ps h1 of (qs, h2) \<Rightarrow> ((k, v) # qs, h2)))"


text \<open>
  What \<open>JSON.stringify\<close> keeps of a value: undefined itself has no text, an undefined
  element of an array becomes null, a property whose value is undefined is left out.
\<close>

fun drop_undefined :: "(string \<times> tree option) list \<Rightarrow> (string \<times> tree) list" where
  "drop_undefined [] = []"
| "drop_undefined ((k, None) # ps) = drop_undefined ps"
| "drop_undefined ((k, Some t) # ps) = (k, t) # drop_undefined ps"

fun json_of :: "tree \<Rightarrow> tree option" where
  "json_of TUndefined = None"
| "json_of TNull = Some TNull"
| "json_of (TBool b) = Some (TBool b)"
| "json_of (TNum n) = Some (TNum n)"
| "json_of (TStr s) = Some (TStr s)"
| "json_of (TArr ts) =
     Some (TArr (map (\<lambda>t. case json_of t of None \<Rightarrow> TNull | Some j \<Rightarrow> j) ts))"
| "json_of (TObj ps) =
     Some (TObj (drop_undefined (map (\<lambda>p. (fst p, json_of (snd p))) ps)))"

text \<open>The text of a number in base \<open>b\<close> (\<open>toString(b)\<close>), of a string, of a tree.\<close>

definition digit_char :: "nat \<Rightarrow> char" where
  "digit_char d = ''0123456789abcdef'' ! d"

function to_base :: "nat \<Rightarrow> nat \<Rightarrow> string" where
  "to_base b n = (if b < 2 \<or> n < b then [digit_char n] else to_base b (n div b) @ [digit_char (n mod b)])"
  by pat_completeness auto
termination
  by (relation "measure snd") auto

definition number_text :: "int \<Rightarrow> string" where
  "number_text n = (if n < 0 then CHR ''-'' # to_base 10 (nat (- n)) else to_base 10 (nat n))"

definition quote_char :: "char \<Rightarrow> string" where
  "quote_char c =
     (let n = (of_char c :: nat)
      in if n = 8 then [CHR 0x5C, CHR ''b'']
         else if n = 9 then [CHR 0x5C, CHR ''t'']
         else if n = 10 then [CHR 0x5C, CHR ''n'']
         else if n = 12 then [CHR 0x5C, CHR ''f'']
         else if n = 13 then [CHR 0x5C, CHR ''r'']
         else if n = 34 then [CHR 0x5C, CHR 0x22]
         else if n = 92 then [CHR 0x5C, CHR 0x5C]
         else if n < 32 then [CHR 0x5C, CHR ''u'', CHR ''0'', CHR ''0'', digit_char (n div 16), digit_char (n mod 16)]
         else [c])"

definition quote :: "string \<Rightarrow> string" where
  "quote s = [CHR 0x22] @ concat (map quote_char s) @ [CHR 0x22]"

fun commas :: "string list \<Rightarrow> string" where
  "commas [] = []"
| "commas [x] = x"
| "commas (x # y # ys) = x @ '','' @ commas (y # ys)"

fun render :: "tree \<Rightarrow> string" where
  "render TUndefined = ''null''"
| "render TNull = ''null''"
| "render (TBool b) = (if b then ''true'' else ''false'')"
| "render (TNum n) = number_text n"
| "render (TStr s) = quote s"
| "render (TArr ts) = ''['' @ commas (map render ts) @ '']''"
| "render (TObj ps) = ''{'' @ commas (map (\<lambda>p. quote (fst p) @ '':'' @ render (snd p)) ps) @ ''}''"

text \<open>\<open>JSON.stringify(v)\<close>: the text, \<open>None\<close> for undefined, or the TypeError of a cycle.\<close>

definition JSON_stringify :: "heap \<Rightarrow> jv \<Rightarrow> js_error + string option" where
  "JSON_stringify h v =
     (case snapshot h [] v of
        Inl e \<Rightarrow> Inl e
      | Inr t \<Rightarrow> Inr (map_option render (json_of t)))"

text \<open>
  \<open>hash = ((hash << 5) - hash) + char; hash = hash & hash\<close>: both \<open><<\<close> and
  \<open>&\<close> reduce their operand to a signed 32-bit integer.
\<close>

definition to_int32 :: "int \<Rightarrow> int" where
  "to_int32 x = (x + 2 ^ 31) mod 2 ^ 32 - 2 ^ 31"

definition hash_step :: "int \<Rightarrow> char \<Rightarrow> int" where
  "hash_step hash c = to_int32 ((to_int32 (hash * 2 ^ 5) - hash) + of_char c)"

text \<open>\<open>Math.abs(hash).toString(16)\<close> after the loop over the characters.\<close>

definition checksum_text :: "string \<Rightarrow> string" where
  "checksum_text valueString = to_base 16 (nat \<bar>foldl hash_step 0 valueString\<bar>)"

text \<open>\<open>valueString.length\<close> raises a TypeError when \<open>JSON.stringify\<close> gave undefined.\<close>

definition calculateChecksum :: "heap \<Rightarrow> jv \<Rightarrow> js_error + string" where
  "calculateChecksum h v =
     (case JSON_stringify h v of
        Inl e \<Rightarrow> Inl e
      | Inr None \<Rightarrow> Inl TypeError
      | Inr (Some valueString) \<Rightarrow> Inr (checksum_text valueString))"

text \<open>
  \<open>deepClone\<close> returns null and every non-object as it is. For an object it returns
  \<open>JSON.parse(JSON.stringify(value))\<close>, and the value itself when that raises.
\<close>

definition deepClone :: "heap \<Rightarrow> jv \<Rightarrow> jv \<times> heap" where
  "deepClone h v =
     (case v of
        VRef a \<Rightarrow>
          (case snapshot h [] v of
             Inl e \<Rightarrow> (v, h)
           | Inr t \<Rightarrow> (case json_of t of None \<Rightarrow> (v, h) | Some j \<Rightarrow> alloc j h))
      | _ \<Rightarrow> (v, h))"

text \<open>
  The verification callback is a closure; \<open>'e\<close> is the state it reads when called.
\<close>

record 'e GameValue =
  key :: string
  originalValue :: jv
  currentValue :: jv
  checksums :: "string list"
  lastAccessTime :: int
  accessCount :: nat
  verificationCallback :: "('e \<Rightarrow> bool) option"

definition isChecksumValid :: "heap \<Rightarrow> 'e GameValue \<Rightarrow> js_error + bool" where
  "isChecksumValid h g =
     (case calculateChecksum h (currentValue g) of
        Inl e \<Rightarrow> Inl e
      | Inr currentChecksum \<Rightarrow> Inr (currentChecksum \<in> set (checksums g)))"

definition updateChecksums :: "heap \<Rightarrow> 'e GameValue \<Rightarrow> js_error + 'e GameValue" where
  "updateChecksums h g =
     (case calculateChecksum h (currentValue g) of
        Inl e \<Rightarrow> Inl e
      | Inr checksum \<Rightarrow> Inr (g\<lparr>checksums := [checksum]\<rparr>))"

text \<open>
  The constructor and the methods. Each returns its result next to the heap and the
  container as they are when it returns or raises: an exception leaves the assignments
  made before it in place.
\<close>

definition new_GameValue ::
  "int \<Rightarrow> string \<Rightarrow> jv \<Rightarrow> ('e \<Rightarrow> bool) option \<Rightarrow> heap \<Rightarrow> (js_error + 'e GameValue) \<times> heap" where
  "new_GameValue now k initialValue cb h =
     (case deepClone h initialValue of
        (v0, h1) \<Rightarrow>
          (case deepClone h1 initialValue of
             (v1, h2) \<Rightarrow>
               (case updateChecksums h2
                       \<lparr> key = k, originalValue = v0, currentValue = v1, checksums = [],
                         lastAccessTime = 0, accessCount = 0, verificationCallback = None \<rparr> of
                  Inl e \<Rightarrow> (Inl e, h2)
                | Inr g \<Rightarrow> (Inr (g\<lparr>lastAccessTime := now, verificationCallback := cb\<rparr>), h2))))"

definition get :: "int \<Rightarrow> heap \<Rightarrow> 'e GameValue \<Rightarrow> (js_error + jv) \<times> heap \<times> 'e GameValue" where
  "get now h g =
     (let g1 = g\<lparr>accessCount := accessCount g + 1, lastAccessTime := now\<rparr>
      in case isChecksumValid h g1 of
           Inl e \<Rightarrow> (Inl e, h, g1)
         | Inr ok \<Rightarrow> (case deepClone h (currentValue g1) of (v, h1) \<Rightarrow> (Inr v, h1, g1)))"

text \<open>The method \<open>set\<close>.\<close>

definition set_value ::
  "int \<Rightarrow> jv \<Rightarrow> heap \<Rightarrow> 'e GameValue \<Rightarrow> (js_error + unit) \<times> heap \<times> 'e GameValue" where
  "set_value now newValue h g =
     (let g1 = g\<lparr>accessCount := accessCount g + 1, lastAccessTime := now\<rparr>
      in case isChecksumValid h g1 of
           Inl e \<Rightarrow> (Inl e, h, g1)
         | Inr ok \<Rightarrow>
             (case deepClone h newValue of
                (v, h1) \<Rightarrow>
                  let g2 = g1\<lparr>currentValue := v\<rparr>
                  in (case updateChecksums h1 g2 of
                        Inl e \<Rightarrow> (Inl e, h1, g2)
                      | Inr g3 \<Rightarrow> (Inr (), h1, g3))))"

definition reset :: "heap \<Rightarrow> 'e GameValue \<Rightarrow> (js_error + unit) \<times> heap \<times> 'e GameValue" where
  "reset h g =
     (case deepClone h (originalValue g) of
        (v, h1) \<Rightarrow>
          let g1 = g\<lparr>currentValue := v\<rparr>
          in (case updateChecksums h1 g1 of
                Inl e \<Rightarrow> (Inl e, h1, g1)
              | Inr g2 \<Rightarrow> (Inr (), h1, g2)))"

definition verify :: "'e \<Rightarrow> heap \<Rightarrow> 'e GameValue \<Rightarrow> js_error + bool" where
  "verify env h g =
     (case isChecksumValid h g of
        Inl e \<Rightarrow> Inl e
      | Inr valid \<Rightarrow>
          let isCustomVerificationValid =
                (if \<not> valid then False
                 else (case verificationCallback g of Some f \<Rightarrow> f env | None \<Rightarrow> True))
          in Inr (valid \<and> isCustomVerificationValid))"

section \<open>GuardianShield, the client orchestrator, with ToolDetector and MemoryScanner\<close>

text \<open>
  The detectors of the library draw their verdicts from \<open>Math.random()\<close>. The random
  source is a parameter \<open>rnd\<close>, the shield counts the numbers drawn from it. \<open>calls\<close>
  records each detector method entered and each container verified, in order;
  \<open>events\<close> records each event passed to \<open>handleCheatDetected\<close>.
\<close>

datatype call =
    DetectCheatToolApps
  | DetectSuspiciousProcesses
  | DetectMemorySignatures
  | DetectDebugger
  | DetectEmulator
  | ScanMemoryForTampering
  | VerifyValue string

record tool_detector =
  knownCheatTools :: "string list"
  suspiciousProcesses :: "string list"

record CheatToolDetectionResult =
  detected :: bool
  toolName :: "string option"
  detectionType :: "string option"
  confidence :: "string option"
  detailNumber :: "int option"

definition not_detected :: CheatToolDetectionResult where
  "not_detected =
     \<lparr> detected = False, toolName = None, detectionType = None, confidence = None,
       detailNumber = None \<rparr>"

record MemoryScanner =
  lastScanTime :: int
  sensitiveAddresses :: "string list"

record MemoryScanResult =
  tampered :: bool
  regions :: "string list"
  scanReason :: "string option"

record MemoryProtector =
  detectedTamperingAttempts :: nat
  protectorMaxAttempts :: nat
  serverLogEndpoint :: "string option"

datatype CheatDetectionType =
    MEMORY_TAMPERING
  | VALUE_TAMPERING
  | TOOL_DETECTED
  | DEBUGGER_DETECTED
  | EMULATOR_DETECTED
  | SUSPICIOUS_BEHAVIOR

datatype event_details =
    ToolDetails CheatToolDetectionResult
  | ScanDetails "string option"
  | TamperedKeys "string list"

record CheatDetectionEvent =
  ev_type :: CheatDetectionType
  ev_severity :: string
  ev_details :: event_details
  ev_timestamp :: int

record GuardianShield =
  detector :: tool_detector
  scanner :: MemoryScanner
  protector :: MemoryProtector
  isRunning :: bool
  checkInterval :: int
  intervalId :: "nat option"
  protectedValues :: "(string \<times> bool GameValue) list"
  onCheatDetectedCallback :: bool
  isVerifying :: bool
  draws :: nat
  calls :: "call list"
  events :: "CheatDetectionEvent list"
  reports :: "CheatDetectionEvent list"
  delivered :: "CheatDetectionEvent list"

text \<open>\<open>Math.random()\<close>, the next number of the source.\<close>

definition Math_random :: "(nat \<Rightarrow> rat) \<Rightarrow> GuardianShield \<Rightarrow> rat \<times> GuardianShield" where
  "Math_random rnd s = (rnd (draws s), s\<lparr>draws := draws s + 1\<rparr>)"

definition enter :: "call \<Rightarrow> GuardianShield \<Rightarrow> GuardianShield" where
  "enter c s = s\<lparr>calls := calls s @ [c]\<rparr>"

text \<open>\<open>Math.floor(Math.random() * n)\<close> and \<open>xs[Math.floor(Math.random() * xs.length)]\<close>\<close>

definition random_int :: "rat \<Rightarrow> int \<Rightarrow> int" where
  "random_int r n = \<lfloor>r * of_int n\<rfloor>"

definition pick :: "string list \<Rightarrow> rat \<Rightarrow> string option" where
  "pick xs r =
     (let i = random_int r (int (length xs))
      in if 0 \<le> i \<and> i < int (length xs) then Some (xs ! nat i) else None)"

definition detectCheatToolApps ::
  "(nat \<Rightarrow> rat) \<Rightarrow> GuardianShield \<Rightarrow> CheatToolDetectionResult \<times> GuardianShield" where
  "detectCheatToolApps rnd s =
     (case Math_random rnd (enter DetectCheatToolApps s) of
        (r, s1) \<Rightarrow>
          if r < 5 / 100
          then (case Math_random rnd s1 of
                  (r2, s2) \<Rightarrow>
                    (\<lparr> detected = True,
                       toolName = pick (knownCheatTools (detector s2)) r2,
                       detectionType = Some ''installed_package'',
                       confidence = Some ''high'',
                       detailNumber = None \<rparr>, s2))
          else (not_detected, s1))"

definition detectSuspiciousProcesses ::
  "(nat \<Rightarrow> rat) \<Rightarrow> GuardianShield \<Rightarrow> CheatToolDetectionResult \<times> GuardianShield" where
  "detectSuspiciousProcesses rnd s =
     (case Math_random rnd (enter DetectSuspiciousProcesses s) of
        (r, s1) \<Rightarrow>
          if r < 5 / 100
          then (case Math_random rnd s1 of
                  (r2, s2) \<Rightarrow>
                    (case Math_random rnd s2 of
                       (r3, s3) \<Rightarrow>
                         (\<lparr> detected = True,
                            toolName = pick (suspiciousProcesses (detector s3)) r2,
                            detectionType = Some ''running_process'',
                            confidence = Some ''medium'',
                            detailNumber = Some (random_int r3 10000) \<rparr>, s3)))
          else (not_detected, s1))"

definition detectMemorySignatures ::
  "(nat \<Rightarrow> rat) \<Rightarrow> GuardianShield \<Rightarrow> CheatToolDetectionResult \<times> GuardianShield" where
  "detectMemorySignatures rnd s =
     (case Math_random rnd (enter DetectMemorySignatures s) of
        (r, s1) \<Rightarrow>
          if r < 5 / 100
          then (case Math_random rnd s1 of
                  (r2, s2) \<Rightarrow>
                    (\<lparr> detected = True,
                       toolName = None,
                       detectionType = Some ''memory_signature'',
                       confidence = Some ''medium'',
                       detailNumber = Some (random_int r2 0xFFFFFFFF) \<rparr>, s2))
          else (not_detected, s1))"

definition detectDebugger ::
  "(nat \<Rightarrow> rat) \<Rightarrow> GuardianShield \<Rightarrow> CheatToolDetectionResult \<times> GuardianShield" where
  "detectDebugger rnd s =
     (case Math_random rnd (enter DetectDebugger s) of
        (r, s1) \<Rightarrow>
          if r < 5 / 100
          then (case Math_random rnd s1 of
                  (r2, s2) \<Rightarrow>
                    (\<lparr> detected = True,
                       toolName = None,
                       detectionType = Some ''debugger'',
                       confidence = Some ''high'',
                       detailNumber = Some (random_int r2 1000) \<rparr>, s2))
          else (not_detected, s1))"

definition detectEmulator ::
  "(nat \<Rightarrow> rat) \<Rightarrow> GuardianShield \<Rightarrow> CheatToolDetectionResult \<times> GuardianShield" where
  "detectEmulator rnd s =
     (case Math_random rnd (enter DetectEmulator s) of
        (r, s1) \<Rightarrow>
          if r < 5 / 100
          then (\<lparr> detected = True,
                  toolName = None,
                  detectionType = Some ''emulator'',
                  confidence = Some ''high'',
                  detailNumber = None \<rparr>, s1)
          else (not_detected, s1))"

definition detectCheatTools ::
  "(nat \<Rightarrow> rat) \<Rightarrow> GuardianShield \<Rightarrow> CheatToolDetectionResult \<times> GuardianShield" where
  "detectCheatTools rnd s =
     (case detectCheatToolApps rnd s of
        (appDetection, s1) \<Rightarrow>
          if detected appDetection then (appDetection, s1)
          else
            (case detectSuspiciousProcesses rnd s1 of
               (processDetection, s2) \<Rightarrow>
                 if detected processDetection then (processDetection, s2)
                 else
                   (case detectMemorySignatures rnd s2 of
                      (signatureDetection, s3) \<Rightarrow>
                        if detected signatureDetection then (signatureDetection, s3)
                        else
                          (case detectDebugger rnd s3 of
                             (debuggerDetection, s4) \<Rightarrow>
                               if detected debuggerDetection then (debuggerDetection, s4)
                               else
                                 (case detectEmulator rnd s4 of
                                    (emulatorDetection, s5) \<Rightarrow>
                                      if detected emulatorDetection then (emulatorDetection, s5)
                                      else (not_detected, s5))))))"

text \<open>
  \<open>MemoryScanner.scanMemoryForTampering\<close>. \<open>currentTime\<close> is \<open>Date.now()\<close>;
  \<open>mismatched\<close> is the list \<open>checkMemoryChecksums()\<close> returns in this scan, whose
  simulated checksums depend on the clock.
\<close>

definition scanMemoryForTampering ::
  "int \<Rightarrow> string list \<Rightarrow> GuardianShield \<Rightarrow> MemoryScanResult \<times> GuardianShield" where
  "scanMemoryForTampering currentTime mismatched s =
     (let s0 = enter ScanMemoryForTampering s;
          timeDiff = currentTime - lastScanTime (scanner s0);
          s1 = s0\<lparr>scanner := (scanner s0)\<lparr>lastScanTime := currentTime\<rparr>\<rparr>
      in if lastScanTime (scanner s1) > 0 \<and> (timeDiff > 5000 \<or> timeDiff < 0)
         then (\<lparr> tampered = True, regions = [], scanReason = Some ''time_manipulation'' \<rparr>, s1)
         else if length mismatched > 0
         then (\<lparr> tampered = True, regions = mismatched,
                  scanReason = Some ''checksum_mismatch'' \<rparr>, s1)
         else (\<lparr> tampered = False, regions = [], scanReason = None \<rparr>, s1))"

definition applyCountermeasures :: "MemoryProtector \<Rightarrow> MemoryProtector" where
  "applyCountermeasures p = p\<lparr>detectedTamperingAttempts := detectedTamperingAttempts p + 1\<rparr>"

text \<open>
  \<open>handleCheatDetected\<close>: countermeasures, the report to the server when an endpoint
  is configured, and the user's callback when one is set.
\<close>

definition handleCheatDetected :: "CheatDetectionEvent \<Rightarrow> GuardianShield \<Rightarrow> GuardianShield" where
  "handleCheatDetected ev s =
     (let s1 = s\<lparr>events := events s @ [ev], protector := applyCountermeasures (protector s)\<rparr>;
          s2 = (if serverLogEndpoint (protector s1) \<noteq> None
                then s1\<lparr>reports := reports s1 @ [ev]\<rparr> else s1)
      in if onCheatDetectedCallback s2 then s2\<lparr>delivered := delivered s2 @ [ev]\<rparr> else s2)"

text \<open>\<open>this.protectedValues.forEach\<close>, collecting the keys whose \<open>verify()\<close> is false.\<close>

fun verify_each ::
  "heap \<Rightarrow> (string \<times> bool GameValue) list \<Rightarrow> string list \<Rightarrow> GuardianShield
     \<Rightarrow> (js_error + string list) \<times> GuardianShield" where
  "verify_each h [] tamperedKeys s = (Inr tamperedKeys, s)"
| "verify_each h ((k, v) # kvs) tamperedKeys s =
     (let s1 = enter (VerifyValue k) s
      in case verify (isVerifying s1) h v of
           Inl e \<Rightarrow> (Inl e, s1)
         | Inr ok \<Rightarrow> verify_each h kvs (if ok then tamperedKeys else tamperedKeys @ [k]) s1)"

definition runChecks ::
  "(nat \<Rightarrow> rat) \<Rightarrow> int \<Rightarrow> string list \<Rightarrow> heap \<Rightarrow> GuardianShield
     \<Rightarrow> (js_error + bool) \<times> GuardianShield" where
  "runChecks rnd now mismatched h s =
     (case detectCheatTools rnd s of
        (toolsDetectionResult, s1) \<Rightarrow>
          let s2 = (if detected toolsDetectionResult
                    then handleCheatDetected
                           \<lparr> ev_type = TOOL_DETECTED, ev_severity = ''critical'',
                             ev_details = ToolDetails toolsDetectionResult,
                             ev_timestamp = now \<rparr> s1
                    else s1)
          in (case scanMemoryForTampering now mismatched s2 of
                (memoryTamperingResult, s3) \<Rightarrow>
                  let s4 = (if tampered memoryTamperingResult
                            then handleCheatDetected
                                   \<lparr> ev_type = MEMORY_TAMPERING, ev_severity = ''high'',
                                     ev_details = ScanDetails (scanReason memoryTamperingResult),
                                     ev_timestamp = now \<rparr> s3
                            else s3);
                      s5 = s4\<lparr>isVerifying := True\<rparr>
                  in (case verify_each h (protectedValues s5) [] s5 of
                        (Inl e, s6) \<Rightarrow> (Inl e, s6)
                      | (Inr tamperedKeys, s6) \<Rightarrow>
                          let s7 = s6\<lparr>isVerifying := False\<rparr>;
                              valuesTampered = (tamperedKeys \<noteq> []);
                              s8 = (if valuesTampered
                                    then handleCheatDetected
                                           \<lparr> ev_type = VALUE_TAMPERING, ev_severity = ''high'',
                                             ev_details = TamperedKeys tamperedKeys,
                                             ev_timestamp = now \<rparr> s7
                                    else s7)
                          in (Inr (detected toolsDetectionResult
                                    \<or> tampered memoryTamperingResult \<or> valuesTampered), s8))))"

text \<open>The probes of \<open>detectCheatTools\<close> and the \<open>detectionType\<close> each reports.\<close>

definition tool_probes :: "call list" where
  "tool_probes =
     [DetectCheatToolApps, DetectSuspiciousProcesses, DetectMemorySignatures, DetectDebugger,
      DetectEmulator]"

definition probe_types :: "string list" where
  "probe_types =
     [''installed_package'', ''running_process'', ''memory_signature'', ''debugger'', ''emulator'']"

text \<open>\<open>start()\<close>; \<open>timer\<close> is the id \<open>setInterval\<close> returns.\<close>

definition start ::
  "(nat \<Rightarrow> rat) \<Rightarrow> int \<Rightarrow> string list \<Rightarrow> nat \<Rightarrow> heap \<Rightarrow> GuardianShield
     \<Rightarrow> (js_error + bool) \<times> GuardianShield" where
  "start rnd now mismatched timer h s =
     (if isRunning s then (Inr True, s)
      else
        (case runChecks rnd now mismatched h s of
           (Inl e, s1) \<Rightarrow> (Inl e, s1)
         | (Inr criticalIssueDetected, s1) \<Rightarrow>
             if criticalIssueDetected then (Inr False, s1)
             else (Inr True, s1\<lparr>isRunning := True, intervalId := Some timer\<rparr>)))"

definition stop :: "GuardianShield \<Rightarrow> GuardianShield" where
  "stop s = (if \<not> isRunning s then s else s\<lparr>isRunning := False, intervalId := None\<rparr>)"

text \<open>\<open>Map.set\<close>: a key already present keeps its place.\<close>

fun map_set :: "string \<Rightarrow> 'a \<Rightarrow> (string \<times> 'a) list \<Rightarrow> (string \<times> 'a) list" where
  "map_set k v [] = [(k, v)]"
| "map_set k v ((k', v') # kvs) = (if k' = k then (k, v) # kvs else (k', v') # map_set k v kvs)"

text \<open>
  \<open>protectValue\<close>: the callback handed to the container reads the flag
  \<open>isVerifying\<close> of the shield and answers true on both of its paths.
\<close>

definition protectValue ::
  "int \<Rightarrow> string \<Rightarrow> jv \<Rightarrow> heap \<Rightarrow> GuardianShield
     \<Rightarrow> (js_error + bool GameValue) \<times> heap \<times> GuardianShield" where
  "protectValue now k initialValue h s =
     (case new_GameValue now k initialValue
             (Some (\<lambda>verifying. if verifying then True else True)) h of
        (Inl e, h1) \<Rightarrow> (Inl e, h1, s)
      | (Inr gameValue, h1) \<Rightarrow>
          (Inr gameValue, h1, s\<lparr>protectedValues := map_set k gameValue (protectedValues s)\<rparr>))"

text \<open>
  The shield \<open>new GuardianShield(options)\<close> builds; the session and device ids it
  draws are left out. An option is \<open>None\<close> when absent or falsy.
\<close>

definition new_GuardianShield :: "int option \<Rightarrow> string option \<Rightarrow> int option \<Rightarrow> GuardianShield" where
  "new_GuardianShield optCheckInterval optServerLogEndpoint optMaxTamperingAttempts =
     \<lparr> detector =
         \<lparr> knownCheatTools =
             [''com.gameguardian.app'', ''org.cheatengine.cegui'', ''catch_.me_.if_.you_.can_'',
              ''com.zune.gamekiller'', ''com.lmzs.gamehacker'', ''com.leo.simulator'',
              ''com.cih.game_cih'', ''com.xmodgame'', ''com.zhangkun.gameplay'',
              ''org.sbtools.gamehack'', ''com.glt.ctrler'', ''com.finalshare.freecoin''],
           suspiciousProcesses =
             [''gameguardian'', ''cheatengine'', ''gamekiller'', ''gamehacker'', ''xposed'',
              ''frida'', ''substrate'', ''memdump'', ''memmod''] \<rparr>,
       scanner =
         \<lparr> lastScanTime = 0,
           sensitiveAddresses = [''0x12340000:1024'', ''0x12350000:512'', ''0x12360000:256''] \<rparr>,
       protector =
         \<lparr> detectedTamperingAttempts = 0,
           protectorMaxAttempts =
             (case optMaxTamperingAttempts of None \<Rightarrow> 3 | Some n \<Rightarrow> nat (max 1 n)),
           serverLogEndpoint = optServerLogEndpoint \<rparr>,
       isRunning = False,
       checkInterval = (case optCheckInterval of None \<Rightarrow> 1000 | Some n \<Rightarrow> n),
       intervalId = None,
       protectedValues = [],
       onCheatDetectedCallback = False,
       isVerifying = False,
       draws = 0,
       calls = [],
       events = [],
       reports = [],
       delivered = [] \<rparr>"

section \<open>Notions used in the statements\<close>

text \<open>The record the store holds for a player id.\<close>

definition lookup_player :: "server \<Rightarrow> string \<Rightarrow> player option" where
  "lookup_player srv pid = (case db srv of None \<Rightarrow> None | Some d \<Rightarrow> players d pid)"

definition suspended :: "string \<Rightarrow> server \<Rightarrow> bool" where
  "suspended pid srv \<longleftrightarrow> (case lookup_player srv pid of None \<Rightarrow> False | Some p \<Rightarrow> isBanned p)"

text \<open>Every banned player of the first database is a banned player of the second.\<close>

definition keeps_bans :: "database \<Rightarrow> database \<Rightarrow> bool" where
  "keeps_bans d d' \<longleftrightarrow>
     (\<forall>q p. players d q = Some p \<and> isBanned p \<longrightarrow> (\<exists>p'. players d' q = Some p' \<and> isBanned p'))"

definition srv_keeps_bans :: "server \<Rightarrow> server \<Rightarrow> bool" where
  "srv_keeps_bans s s' \<longleftrightarrow>
     (case db s of
        None \<Rightarrow> True
      | Some d \<Rightarrow> (case db s' of None \<Rightarrow> False | Some d' \<Rightarrow> keeps_bans d d'))"

text \<open>
  \<open>same_cells lo hi h h'\<close>: the heap \<open>h'\<close> has the cells of \<open>h\<close> at the addresses
  from \<open>lo\<close> up to \<open>hi\<close>; all its other cells are arbitrary.
\<close>

definition same_cells :: "nat \<Rightarrow> nat \<Rightarrow> heap \<Rightarrow> heap \<Rightarrow> bool" where
  "same_cells lo hi h h' \<longleftrightarrow> hi \<le> length h' \<and> (\<forall>a. lo \<le> a \<and> a < hi \<longrightarrow> h' ! a = h ! a)"

definition outside :: "nat \<Rightarrow> nat \<Rightarrow> addr list \<Rightarrow> bool" where
  "outside lo hi stk \<longleftrightarrow> (\<forall>a\<in>set stk. a < lo \<or> hi \<le> a)"

text \<open>What the probes of the tool detector leave as it is.\<close>

definition untouched :: "GuardianShield \<Rightarrow> GuardianShield \<Rightarrow> bool" where
  "untouched s s' \<longleftrightarrow>
     events s' = events s \<and> isRunning s' = isRunning s \<and> intervalId s' = intervalId s \<and>
     protectedValues s' = protectedValues s \<and> scanner s' = scanner s"

section \<open>Concrete scenarios\<close>

text \<open>
  A player with health 50 of 100, 100 coins and no experience, last synchronised at
  time 1000000, and a server that holds this player with two tampering attempts.
\<close>

definition alice_data :: game_values where
  "alice_data =
     \<lparr> health = Some 50, maxHealth = Some 100, healthRegenRate = None, coins = Some 100,
       xp = Some 0, powerups = PAbsent, lastUpdated = None, otherKeys = [] \<rparr>"

definition alice :: player where
  "alice =
     \<lparr> playerId = ''alice'', deviceId = ''device-1'', created = 0, lastSeen = 0,
       gameData = Some alice_data, tamperingAttempts = 2, isBanned = False,
       banTimestamp = None, lastSync = Some 1000000, tampering = [] \<rparr>"

definition game_server :: server where
  "game_server =
     \<lparr> db = Some \<lparr> players = [''alice'' \<mapsto> alice], tampering_logs = [], sync_logs = [] \<rparr>,
       tamperingFile = [] \<rparr>"

definition the_key :: "string option" where
  "the_key = Some ''change-me-in-production''"

text \<open>A sync request of alice, one minute after her last one.\<close>

definition sync_request :: "game_values \<Rightarrow> sync_body" where
  "sync_request g =
     \<lparr> sb_playerId = JStr ''alice'', sb_sessionId = JStr ''session-1'', sb_gameValues = Some g,
       sb_clientTimestamp = ParsedTime 1060000, sb_checksum = JUndefined \<rparr>"

definition critical_report :: tampering_body where
  "critical_report =
     \<lparr> tb_type = JStr ''debugger_detected'', tb_severity = JStr ''critical'',
       tb_deviceId = JStr ''device-1'', tb_playerId = JStr ''alice'', tb_appVersion = JUndefined,
       tb_timestamp = JUndefined, tb_details = JUndefined \<rparr>"

text \<open>A container of the number 100 and one of an object, each with its checksum.\<close>

definition coins_value :: "bool GameValue" where
  "coins_value =
     \<lparr> key = ''coins'', originalValue = VNum 100, currentValue = VNum 100,
       checksums = [checksum_text ''100''], lastAccessTime = 0, accessCount = 0,
       verificationCallback = None \<rparr>"

definition stats_heap :: heap where
  "stats_heap = [HObject [(''hp'', VNum 100)], HObject [(''hp'', VNum 100)]]"

definition stats_value :: "bool GameValue" where
  "stats_value =
     \<lparr> key = ''stats'', originalValue = VRef 0, currentValue = VRef 1,
       checksums = [checksum_text (render (TObj [(''hp'', TNum 100)]))], lastAccessTime = 0,
       accessCount = 0, verificationCallback = None \<rparr>"

text \<open>The array \<open>[1, undefined]\<close>, and a container whose callback answers false.\<close>

definition sparse_heap :: heap where
  "sparse_heap = [HArray [VNum 1, VUndefined]]"

definition distrusted_value :: "bool GameValue" where
  "distrusted_value = coins_value\<lparr>verificationCallback := Some (\<lambda>verifying. False)\<rparr>"

text \<open>A random source that never makes a probe fire, and one that always does.\<close>

definition quiet :: "nat \<Rightarrow> rat" where
  "quiet n = 1 / 2"

definition noisy :: "nat \<Rightarrow> rat" where
  "noisy n = 0"

definition fresh_shield :: GuardianShield where
  "fresh_shield = new_GuardianShield None None None"

section \<open>The server: proofs\<close>

subsection \<open>Tampering reports\<close>

lemma sanitize_severity_critical: "sanitize_severity v = ''critical'' \<longleftrightarrow> v = JStr ''critical''"
  by (cases v) (auto simp: known_severities_def)

lemma sanitize_severity_unknown:
  "v \<notin> JStr ` set known_severities \<Longrightarrow> sanitize_severity v = ''unknown''"
  by (cases v) auto

lemma sanitize_fields:
  "sd_severity (sanitize uuid nowIso b) = sanitize_severity (tb_severity b)"
  "sd_id (sanitize uuid nowIso b) = uuid"
  by (simp_all add: sanitize_def)

lemma log_tampering_result:
  assumes "validateApiKey cfg hdr"
  shows "log_tampering cfg uuid nowIso hdr (Some b) srv =
           (if tb_severity b = JStr ''critical''
            then json 403 (TamperBan (terminalMessage cfg) (banDuration cfg) uuid)
            else json 200 (TamperWarn (warningMessage cfg) uuid),
            srv\<lparr>db := map_option (store_report (sanitize uuid nowIso b)) (db srv),
                tamperingFile := tamperingFile srv @ [sanitize uuid nowIso b]\<rparr>)"
  using assms
  by (simp add: log_tampering_def log_tampering_handler_def Let_def sanitize_fields
      sanitize_severity_critical)

lemma tampering_logs_store_report:
  "tampering_logs (store_report sd d) = tampering_logs d @ [sd]"
  by (simp add: store_report_def inc_tampering_def Let_def split: option.splits)

text \<open>
  C3. A report whose severity is exactly the string "critical" is answered with status
  403 and action "ban", whatever the server holds about the player, on the first call
  as on any other; a report with any other severity is answered with status 200 and
  action "warn". The request has passed the API key check.
\<close>

theorem critical_report_bans:
  assumes "validateApiKey cfg hdr"
  shows "(tb_severity b = JStr ''critical'' \<longrightarrow>
            status (fst (log_tampering cfg uuid nowIso hdr (Some b) srv)) = 403 \<and>
            action (body (fst (log_tampering cfg uuid nowIso hdr (Some b) srv))) = Some ''ban'') \<and>
         (tb_severity b \<noteq> JStr ''critical'' \<longrightarrow>
            status (fst (log_tampering cfg uuid nowIso hdr (Some b) srv)) = 200 \<and>
            action (body (fst (log_tampering cfg uuid nowIso hdr (Some b) srv))) = Some ''warn'')"
  by (simp add: log_tampering_result [OF assms] json_def)

theorem critical_report_bans_witness:
  "validateApiKey deployConfig the_key \<and>
   tb_severity critical_report = JStr ''critical'' \<and>
   status (fst (log_tampering deployConfig ''id-1'' ''2024-01-01T00:00:00.000Z'' the_key
                  (Some critical_report) game_server)) = 403 \<and>
   action (body (fst (log_tampering deployConfig ''id-1'' ''2024-01-01T00:00:00.000Z'' the_key
                  (Some critical_report) game_server))) = Some ''ban''"
proof -
  have k: "validateApiKey deployConfig the_key"
    by (simp add: validateApiKey_def deployConfig_def the_key_def)
  have c: "tb_severity critical_report = JStr ''critical''"
    by (simp add: critical_report_def)
  from critical_report_bans [OF k, of critical_report "''id-1''" "''2024-01-01T00:00:00.000Z''"
      game_server] c k
  show ?thesis by simp
qed

text \<open>
  C10. With a valid API key and an object as body, the entry written to the log file and
  to the collection \<open>tampering_logs\<close> is the sanitised report; its severity is "unknown"
  whenever the supplied severity is none of low, medium, high, critical. The answer is
  403 with action "ban" exactly when the supplied severity is the string "critical", and
  200 with action "warn" for every other severity.
\<close>

theorem severity_sanitized_before_storage:
  assumes "validateApiKey cfg hdr"
  shows "tamperingFile (snd (log_tampering cfg uuid nowIso hdr (Some b) srv))
           = tamperingFile srv @ [sanitize uuid nowIso b] \<and>
         map_option tampering_logs (db (snd (log_tampering cfg uuid nowIso hdr (Some b) srv)))
           = map_option (\<lambda>d. tampering_logs d @ [sanitize uuid nowIso b]) (db srv) \<and>
         (tb_severity b \<notin> JStr ` set known_severities \<longrightarrow>
            sd_severity (sanitize uuid nowIso b) = ''unknown'') \<and>
         ((status (fst (log_tampering cfg uuid nowIso hdr (Some b) srv)) = 403 \<and>
           action (body (fst (log_tampering cfg uuid nowIso hdr (Some b) srv))) = Some ''ban'')
            \<longleftrightarrow> tb_severity b = JStr ''critical'') \<and>
         (tb_severity b \<noteq> JStr ''critical'' \<longrightarrow>
            status (fst (log_tampering cfg uuid nowIso hdr (Some b) srv)) = 200 \<and>
            action (body (fst (log_tampering cfg uuid nowIso hdr (Some b) srv))) = Some ''warn'')"
proof -
  have u: "tb_severity b \<notin> JStr ` set known_severities \<Longrightarrow>
      sd_severity (sanitize uuid nowIso b) = ''unknown''"
    by (simp add: sanitize_fields sanitize_severity_unknown)
  have l: "map_option tampering_logs (map_option (store_report sd) x) =
      map_option (\<lambda>d. tampering_logs d @ [sd]) x" for sd x
    by (cases x) (simp_all add: tampering_logs_store_report)
  show ?thesis
    using u by (simp add: log_tampering_result [OF assms] json_def l)
qed

theorem severity_sanitized_before_storage_witness:
  "validateApiKey deployConfig the_key \<and>
   tb_severity (critical_report\<lparr>tb_severity := JStr ''CRITICAL''\<rparr>) \<notin> JStr ` set known_severities \<and>
   sd_severity (sanitize ''id-1'' ''2024-01-01T00:00:00.000Z''
                  (critical_report\<lparr>tb_severity := JStr ''CRITICAL''\<rparr>)) = ''unknown'' \<and>
   status (fst (log_tampering deployConfig ''id-1'' ''2024-01-01T00:00:00.000Z'' the_key
                  (Some (critical_report\<lparr>tb_severity := JStr ''CRITICAL''\<rparr>)) game_server)) = 200 \<and>
   action (body (fst (log_tampering deployConfig ''id-1'' ''2024-01-01T00:00:00.000Z'' the_key
                  (Some (critical_report\<lparr>tb_severity := JStr ''CRITICAL''\<rparr>)) game_server)))
     = Some ''warn''"
proof -
  have k: "validateApiKey deployConfig the_key"
    by (simp add: validateApiKey_def deployConfig_def the_key_def)
  have c: "tb_severity (critical_report\<lparr>tb_severity := JStr ''CRITICAL''\<rparr>) \<notin> JStr ` set known_severities"
    by (auto simp: known_severities_def)
  have n: "tb_severity (critical_report\<lparr>tb_severity := JStr ''CRITICAL''\<rparr>) \<noteq> JStr ''critical''"
    by simp
  from severity_sanitized_before_storage [OF k, of "''id-1''" "''2024-01-01T00:00:00.000Z''"
      "critical_report\<lparr>tb_severity := JStr ''CRITICAL''\<rparr>" game_server] c n k
  show ?thesis by blast
qed

subsection \<open>Suspension is permanent\<close>

lemma keeps_bans_refl: "keeps_bans d d"
  by (simp add: keeps_bans_def)

lemma keeps_bans_trans: "keeps_bans d d1 \<Longrightarrow> keeps_bans d1 d2 \<Longrightarrow> keeps_bans d d2"
  unfolding keeps_bans_def by blast

lemma players_inc_tampering:
  "players (inc_tampering pid e d) q =
     (if q = pid
      then map_option (\<lambda>p. p\<lparr>tamperingAttempts := tamperingAttempts p + 1,
                              tampering := tampering p @ [e]\<rparr>) (players d pid)
      else players d q)"
  by (simp add: inc_tampering_def split: option.splits)

lemma players_ban_player:
  "players (ban_player pid ts d) q =
     (if q = pid
      then map_option (\<lambda>p. p\<lparr>isBanned := True, banTimestamp := Some ts\<rparr>) (players d pid)
      else players d q)"
  by (simp add: ban_player_def split: option.splits)


lemma keeps_bans_inc_tampering: "keeps_bans d (inc_tampering pid e d)"
  by (auto simp: keeps_bans_def inc_tampering_def split: option.splits)

lemma keeps_bans_ban_player: "keeps_bans d (ban_player pid ts d)"
  by (auto simp: keeps_bans_def ban_player_def split: option.splits)

lemma keeps_bans_set_game_data: "keeps_bans d (set_game_data pid g ts d)"
  by (auto simp: keeps_bans_def set_game_data_def split: option.splits)

lemma keeps_bans_logs:
  "keeps_bans d (d'\<lparr>sync_logs := l\<rparr>) = keeps_bans d d'"
  "keeps_bans d (d'\<lparr>tampering_logs := t\<rparr>) = keeps_bans d d'"
  by (simp_all add: keeps_bans_def)

lemma keeps_bans_store_report: "keeps_bans d (store_report sd d)"
proof -
  let ?d1 = "d\<lparr>tampering_logs := tampering_logs d @ [sd]\<rparr>"
  have a: "keeps_bans d ?d1"
    by (simp add: keeps_bans_logs keeps_bans_refl)
  have b: "keeps_bans d (inc_tampering pid e ?d1)" for pid e
    by (rule keeps_bans_trans [OF a keeps_bans_inc_tampering])
  show ?thesis
    using a b by (simp add: store_report_def Let_def split: option.splits)
qed

lemma keeps_bans_register:
  "players d pid = Some p \<Longrightarrow>
     keeps_bans d (d\<lparr>players := (players d)(pid \<mapsto> p\<lparr>lastSeen := n, deviceId := v\<rparr>)\<rparr>)"
  "players d pid = None \<Longrightarrow> keeps_bans d (d\<lparr>players := (players d)(pid \<mapsto> p')\<rparr>)"
  by (auto simp: keeps_bans_def)

lemma keeps_bans_escalation: "keeps_bans d (ban_player pid ts (inc_tampering pid e d))"
  by (rule keeps_bans_trans [OF keeps_bans_inc_tampering keeps_bans_ban_player])

lemma log_tampering_keeps_bans:
  "srv_keeps_bans srv (snd (log_tampering cfg uuid nowIso hdr b srv))"
  by (simp add: log_tampering_def log_tampering_handler_def Let_def srv_keeps_bans_def
      keeps_bans_store_report keeps_bans_refl split: option.splits)

lemma register_player_keeps_bans:
  "srv_keeps_bans srv (snd (register_player cfg now hdr b srv))"
  by (simp add: register_player_def register_player_handler_def Let_def srv_keeps_bans_def
      keeps_bans_register keeps_bans_refl split: option.splits)

lemma sync_game_values_keeps_bans:
  "srv_keeps_bans srv (snd (sync_game_values cfg ts now hdr b srv))"
  by (simp add: sync_game_values_def sync_game_values_handler_def Let_def srv_keeps_bans_def
      keeps_bans_inc_tampering keeps_bans_escalation keeps_bans_set_game_data keeps_bans_logs
      keeps_bans_refl
      split: option.splits sum.splits verification.splits prod.splits)

lemma suspended_step: "srv_keeps_bans s s' \<Longrightarrow> suspended pid s \<Longrightarrow> suspended pid s'"
  by (auto simp: srv_keeps_bans_def suspended_def lookup_player_def keeps_bans_def
      split: option.splits)

lemma suspended_serve: "suspended pid srv \<Longrightarrow> suspended pid (snd (serve cfg r srv))"
  by (cases r)
     (auto intro: suspended_step log_tampering_keeps_bans register_player_keeps_bans
        sync_game_values_keeps_bans)

lemma suspended_serve_all: "suspended pid srv \<Longrightarrow> suspended pid (serve_all cfg rs srv)"
  by (induction rs arbitrary: srv) (simp_all add: suspended_serve)

lemma sync_suspended:
  assumes "suspended pid srv" "validateApiKey cfg hdr" "sb_playerId b = JStr pid" "pid \<noteq> []"
    "sb_gameValues b \<noteq> None"
  shows "sync_game_values cfg ts now hdr (Some b) srv
           = (json 403 (ErrorBody ''Account suspended''), srv)"
  using assms
  by (auto simp: suspended_def lookup_player_def sync_game_values_def
      sync_game_values_handler_def checkDatabaseConnection_def split: option.splits)

subsection \<open>The outcomes of a sync\<close>

lemma verify_pair:
  "fst (verifyGameValues cfg now p nv ts cs) = v \<Longrightarrow> verifyGameValues cfg now p nv ts cs = (v, p)"
  by (simp add: verifyGameValues_def)

lemma lookup_playerD:
  "lookup_player srv pid = Some p \<Longrightarrow> \<exists>d. db srv = Some d \<and> players d pid = Some p"
  by (simp add: lookup_player_def split: option.splits)

lemma sync_invalid:
  assumes "validateApiKey cfg hdr" "db srv = Some d" "players d pid = Some p" "\<not> isBanned p"
    "sb_playerId b = JStr pid" "pid \<noteq> []" "sb_gameValues b = Some gv"
    "fst (verifyGameValues cfg now p gv (sb_clientTimestamp b) (sb_checksum b)) = Inr (Invalid r)"
  shows "sync_game_values cfg ts now hdr (Some b) srv =
     (if maxTamperingAttempts cfg \<le> tamperingAttempts p + 1
      then (json 403 (SyncBan (terminalMessage cfg)),
            srv\<lparr>db := Some (ban_player pid ts
                   (inc_tampering pid (InvalidSyncEntry ts r (sb_sessionId b)) d))\<rparr>)
      else (json 200 (SyncInvalid (warningMessage cfg) r (gameData p)),
            srv\<lparr>db := Some (inc_tampering pid (InvalidSyncEntry ts r (sb_sessionId b)) d)\<rparr>))"
  using assms(1-7) verify_pair [OF assms(8)]
  by (simp add: sync_game_values_def sync_game_values_handler_def checkDatabaseConnection_def
      Let_def players_inc_tampering)



text \<open>
  C1. For a registered player who is not banned, a sync that passes the request checks
  and whose values are found invalid adds one to the player's tamperingAttempts. When the
  updated count is at least the configured threshold, the player's isBanned is set,
  banTimestamp is the time of the request, and the answer is 403 with action "ban"; from
  then on, whatever requests the server serves in between, every sync for that player is
  answered 403 "Account suspended" and changes nothing, whatever values it proposes.
  Below the threshold the answer is 200 with status invalid and the player stays active.
\<close>

theorem invalid_sync_escalates:
  assumes "validateApiKey cfg hdr" "lookup_player srv pid = Some p" "\<not> isBanned p"
    "sb_playerId b = JStr pid" "pid \<noteq> []" "sb_gameValues b = Some gv"
    "fst (verifyGameValues cfg now p gv (sb_clientTimestamp b) (sb_checksum b)) = Inr (Invalid r)"
  shows "let res = sync_game_values cfg ts now hdr (Some b) srv;
             p1 = p\<lparr>tamperingAttempts := tamperingAttempts p + 1,
                    tampering := tampering p @ [InvalidSyncEntry ts r (sb_sessionId b)]\<rparr>
         in if maxTamperingAttempts cfg \<le> tamperingAttempts p + 1
            then status (fst res) = 403 \<and> action (body (fst res)) = Some ''ban'' \<and>
                 lookup_player (snd res) pid
                   = Some (p1\<lparr>isBanned := True, banTimestamp := Some ts\<rparr>) \<and>
                 (\<forall>rs ts' now' b'. sb_playerId b' = JStr pid \<and> sb_gameValues b' \<noteq> None \<longrightarrow>
                    sync_game_values cfg ts' now' hdr (Some b') (serve_all cfg rs (snd res))
                      = (json 403 (ErrorBody ''Account suspended''), serve_all cfg rs (snd res)))
            else fst res = json 200 (SyncInvalid (warningMessage cfg) r (gameData p)) \<and>
                 lookup_player (snd res) pid = Some p1"
proof -
  obtain d where d: "db srv = Some d" "players d pid = Some p"
    using lookup_playerD [OF assms(2)] by blast
  note res = sync_invalid [OF assms(1) d assms(3-7), of ts]
  show ?thesis
  proof (cases "maxTamperingAttempts cfg \<le> tamperingAttempts p + 1")
    case True
    let ?srv' = "srv\<lparr>db := Some (ban_player pid ts
                   (inc_tampering pid (InvalidSyncEntry ts r (sb_sessionId b)) d))\<rparr>"
    have r: "sync_game_values cfg ts now hdr (Some b) srv
        = (json 403 (SyncBan (terminalMessage cfg)), ?srv')"
      using res True by simp
    have pl: "lookup_player ?srv' pid =
        Some (p\<lparr>tamperingAttempts := tamperingAttempts p + 1,
                tampering := tampering p @ [InvalidSyncEntry ts r (sb_sessionId b)],
                isBanned := True, banTimestamp := Some ts\<rparr>)"
      using d(2) by (simp add: lookup_player_def players_ban_player players_inc_tampering)
    have susp: "suspended pid ?srv'"
      by (simp add: suspended_def pl)
    have later: "sync_game_values cfg ts' now' hdr (Some b') (serve_all cfg rs ?srv')
        = (json 403 (ErrorBody ''Account suspended''), serve_all cfg rs ?srv')"
      if "sb_playerId b' = JStr pid" "sb_gameValues b' \<noteq> None" for rs ts' now' b'
      by (rule sync_suspended [OF suspended_serve_all [OF susp] assms(1) that(1) assms(5) that(2)])
    show ?thesis
      using True pl later by (simp add: r Let_def json_def)
  next
    case False
    let ?srv' = "srv\<lparr>db := Some (inc_tampering pid (InvalidSyncEntry ts r (sb_sessionId b)) d)\<rparr>"
    have r: "sync_game_values cfg ts now hdr (Some b) srv
        = (json 200 (SyncInvalid (warningMessage cfg) r (gameData p)), ?srv')"
      using res False by simp
    have pl: "lookup_player ?srv' pid =
        Some (p\<lparr>tamperingAttempts := tamperingAttempts p + 1,
                tampering := tampering p @ [InvalidSyncEntry ts r (sb_sessionId b)]\<rparr>)"
      using d(2) by (simp add: lookup_player_def players_inc_tampering)
    show ?thesis
      using False pl by (simp add: r Let_def)
  qed
qed


theorem invalid_sync_escalates_witness:
  "validateApiKey deployConfig the_key \<and>
   lookup_player game_server ''alice'' = Some alice \<and> \<not> isBanned alice \<and>
   fst (verifyGameValues deployConfig 1060000 alice (no_values\<lparr>coins := Some 999999\<rparr>)
          (ParsedTime 1060000) JUndefined) = Inr (Invalid (CoinsIncreasedTooFast 999899 1)) \<and>
   status (fst (sync_game_values deployConfig 1060000 1060000 the_key
                  (Some (sync_request (no_values\<lparr>coins := Some 999999\<rparr>))) game_server)) = 403 \<and>
   action (body (fst (sync_game_values deployConfig 1060000 1060000 the_key
                  (Some (sync_request (no_values\<lparr>coins := Some 999999\<rparr>))) game_server)))
     = Some ''ban'' \<and>
   fst (sync_game_values deployConfig 1070000 1070000 the_key (Some (sync_request no_values))
          (snd (sync_game_values deployConfig 1060000 1060000 the_key
                  (Some (sync_request (no_values\<lparr>coins := Some 999999\<rparr>))) game_server)))
     = json 403 (ErrorBody ''Account suspended'')"
proof -
  let ?b = "sync_request (no_values\<lparr>coins := Some 999999\<rparr>)"
  let ?res = "sync_game_values deployConfig 1060000 1060000 the_key (Some ?b) game_server"
  have k: "validateApiKey deployConfig the_key"
    by (simp add: validateApiKey_def deployConfig_def the_key_def)
  have l: "lookup_player game_server ''alice'' = Some alice"
    by (simp add: lookup_player_def game_server_def)
  have n: "\<not> isBanned alice" by (simp add: alice_def)
  have b: "sb_playerId ?b = JStr ''alice''" "''alice'' \<noteq> []"
    "sb_gameValues ?b = Some (no_values\<lparr>coins := Some 999999\<rparr>)"
    by (simp_all add: sync_request_def)
  have v: "fst (verifyGameValues deployConfig 1060000 alice (no_values\<lparr>coins := Some 999999\<rparr>)
          (sb_clientTimestamp ?b) (sb_checksum ?b)) = Inr (Invalid (CoinsIncreasedTooFast 999899 1))"
    by code_simp
  have v': "fst (verifyGameValues deployConfig 1060000 alice (no_values\<lparr>coins := Some 999999\<rparr>)
          (ParsedTime 1060000) JUndefined) = Inr (Invalid (CoinsIncreasedTooFast 999899 1))"
    using v by (simp add: sync_request_def)
  have c: "maxTamperingAttempts deployConfig \<le> tamperingAttempts alice + 1"
    by (simp add: deployConfig_def alice_def)
  from invalid_sync_escalates [OF k l n b v, of 1060000] c
  have e: "status (fst ?res) = 403" "action (body (fst ?res)) = Some ''ban''"
    and f: "\<forall>rs ts' now' b'. sb_playerId b' = JStr ''alice'' \<and> sb_gameValues b' \<noteq> None \<longrightarrow>
              sync_game_values deployConfig ts' now' the_key (Some b') (serve_all deployConfig rs (snd ?res))
                = (json 403 (ErrorBody ''Account suspended''), serve_all deployConfig rs (snd ?res))"
    by (simp_all add: Let_def)
  have "sync_game_values deployConfig 1070000 1070000 the_key (Some (sync_request no_values))
          (serve_all deployConfig [] (snd ?res))
        = (json 403 (ErrorBody ''Account suspended''), serve_all deployConfig [] (snd ?res))"
    by (rule f [rule_format]) (simp add: sync_request_def)
  then have g: "fst (sync_game_values deployConfig 1070000 1070000 the_key
          (Some (sync_request no_values)) (snd ?res)) = json 403 (ErrorBody ''Account suspended'')"
    by simp
  show ?thesis
    by (intro conjI k l n v' e g)
qed

subsection \<open>The rules of the verifier\<close>









subsection \<open>Who changes the player record\<close>




section \<open>The container: proofs\<close>

lemma sequence_map_Inr: "sequence (map Inr xs) = Inr xs"
  by (induction xs) auto

lemma sequence_map_Inr_comp: "sequence (map (Inr \<circ> f) xs) = Inr (map f xs)"
  by (induction xs) auto

lemma sequence_Inr_D: "sequence rs = Inr xs \<Longrightarrow> rs = map Inr xs"
proof (induction rs arbitrary: xs)
  case Nil
  then show ?case by simp
next
  case (Cons r rs)
  show ?case
  proof (cases r)
    case (Inl e)
    with Cons.prems show ?thesis by simp
  next
    case (Inr x)
    with Cons.prems obtain ys where "sequence rs = Inr ys" "xs = x # ys"
      by (auto split: sum.splits)
    with Cons.IH [of ys] Inr show ?thesis by simp
  qed
qed

lemma alloc_extends:
  "\<exists>ext. snd (alloc t h) = h @ ext"
  "\<exists>ext. snd (alloc_list ts h) = h @ ext"
  "\<exists>ext. snd (alloc_props ps h) = h @ ext"
proof (induction t h and ts h and ps h rule: alloc_alloc_list_alloc_props.induct)
  case (9 t ts h)
  obtain v h1 where a: "alloc t h = (v, h1)" by (cases "alloc t h")
  obtain vs h2 where b: "alloc_list ts h1 = (vs, h2)" by (cases "alloc_list ts h1")
  from 9(1) a obtain e1 where "h1 = h @ e1" by auto
  moreover from 9(2) [OF a [symmetric]] b obtain e2 where "h2 = h1 @ e2" by auto
  ultimately show ?case using a b by simp
next
  case (11 k t ps h)
  obtain v h1 where a: "alloc t h = (v, h1)" by (cases "alloc t h")
  obtain qs h2 where b: "alloc_props ps h1 = (qs, h2)" by (cases "alloc_props ps h1")
  from 11(1) a obtain e1 where "h1 = h @ e1" by auto
  moreover from 11(2) [OF a [symmetric]] b obtain e2 where "h2 = h1 @ e2" by auto
  ultimately show ?case using a b by simp
qed (auto split: prod.splits)

lemma alloc_extends_elim:
  assumes "alloc t h = (v, h1)"
  obtains ext where "h1 = h @ ext"
  using alloc_extends(1) [of t h] assms by auto

lemma alloc_list_extends_elim:
  assumes "alloc_list ts h = (vs, h1)"
  obtains ext where "h1 = h @ ext"
  using alloc_extends(2) [of ts h] assms by auto

lemma alloc_props_extends_elim:
  assumes "alloc_props ps h = (qs, h1)"
  obtains ext where "h1 = h @ ext"
  using alloc_extends(3) [of ps h] assms by auto

lemma alloc_snapshot:
  "\<And>v h1 h' stk. alloc t h = (v, h1) \<Longrightarrow> same_cells (length h) (length h1) h1 h' \<Longrightarrow>
      outside (length h) (length h1) stk \<Longrightarrow> snapshot h' stk v = Inr t"
  "\<And>vs h1 h' stk. alloc_list ts h = (vs, h1) \<Longrightarrow> same_cells (length h) (length h1) h1 h' \<Longrightarrow>
      outside (length h) (length h1) stk \<Longrightarrow> map (snapshot h' stk) vs = map Inr ts"
  "\<And>qs h1 h' stk. alloc_props ps h = (qs, h1) \<Longrightarrow> same_cells (length h) (length h1) h1 h' \<Longrightarrow>
      outside (length h) (length h1) stk \<Longrightarrow>
      map (\<lambda>q. snapshot h' stk (snd q)) qs = map Inr (map snd ps) \<and> map fst qs = map fst ps"
proof (induction t h and ts h and ps h rule: alloc_alloc_list_alloc_props.induct)
  case (6 ts h)
  obtain vs h0 where a: "alloc_list ts h = (vs, h0)" by (cases "alloc_list ts h")
  obtain ext where ext: "h0 = h @ ext" using a by (rule alloc_list_extends_elim)
  from 6(2) a have v: "v = VRef (length h0)" and h1: "h1 = h0 @ [HArray vs]" by auto
  have len: "length h0 < length h'" and cell: "h' ! length h0 = HArray vs"
    using 6(3) by (auto simp: same_cells_def h1 ext)
  have nin: "length h0 \<notin> set stk"
    using 6(4) by (auto simp: outside_def h1 ext)
  have sc: "same_cells (length h) (length h0) h0 h'"
    using 6(3) by (auto simp: same_cells_def h1 nth_append)
  have out: "outside (length h) (length h0) (length h0 # stk)"
    using 6(4) by (auto simp: outside_def h1)
  have "map (snapshot h' (length h0 # stk)) vs = map Inr ts"
    by (rule 6(1) [OF a sc out])
  then show ?case
    using len cell nin by (simp add: v sequence_map_Inr)
next
  case (7 ps h)
  obtain qs h0 where a: "alloc_props ps h = (qs, h0)" by (cases "alloc_props ps h")
  obtain ext where ext: "h0 = h @ ext" using a by (rule alloc_props_extends_elim)
  from 7(2) a have v: "v = VRef (length h0)" and h1: "h1 = h0 @ [HObject qs]" by auto
  have len: "length h0 < length h'" and cell: "h' ! length h0 = HObject qs"
    using 7(3) by (auto simp: same_cells_def h1 ext)
  have nin: "length h0 \<notin> set stk"
    using 7(4) by (auto simp: outside_def h1 ext)
  have sc: "same_cells (length h) (length h0) h0 h'"
    using 7(3) by (auto simp: same_cells_def h1 nth_append)
  have out: "outside (length h) (length h0) (length h0 # stk)"
    using 7(4) by (auto simp: outside_def h1)
  have r: "map (\<lambda>q. snapshot h' (length h0 # stk) (snd q)) qs = map Inr (map snd ps) \<and> map fst qs = map fst ps"
    by (rule 7(1) [OF a sc out])
  have z: "zip (map fst qs) (map snd ps) = ps"
    using r by (simp add: zip_map_fst_snd)
  have "sequence (map (\<lambda>q. snapshot h' (length h0 # stk) (snd q)) qs) = Inr (map snd ps)"
    using r by (simp only: sequence_map_Inr)
  then show ?case
    using len cell nin z by (simp add: v)
next
  case (9 t ts h)
  obtain v0 h0 where a: "alloc t h = (v0, h0)" by (cases "alloc t h")
  obtain vs0 h2 where b: "alloc_list ts h0 = (vs0, h2)" by (cases "alloc_list ts h0")
  obtain e1 where e1: "h0 = h @ e1" using a by (rule alloc_extends_elim)
  obtain e2 where e2: "h2 = h0 @ e2" using b by (rule alloc_list_extends_elim)
  from 9(3) a b have vs: "vs = v0 # vs0" and h1: "h1 = h2" by auto
  have sc1: "same_cells (length h) (length h0) h0 h'"
    using 9(4) by (auto simp: same_cells_def h1 e2 nth_append)
  have out1: "outside (length h) (length h0) stk"
    using 9(5) by (auto simp: outside_def h1 e2)
  have sc2: "same_cells (length h0) (length h2) h2 h'"
    using 9(4) by (auto simp: same_cells_def h1 e1)
  have out2: "outside (length h0) (length h2) stk"
    using 9(5) by (auto simp: outside_def h1 e1)
  show ?case
    using 9(1) [OF a sc1 out1] 9(2) [OF a [symmetric] b sc2 out2] by (simp add: vs)
next
  case (11 k t ps h)
  obtain v0 h0 where a: "alloc t h = (v0, h0)" by (cases "alloc t h")
  obtain qs0 h2 where b: "alloc_props ps h0 = (qs0, h2)" by (cases "alloc_props ps h0")
  obtain e1 where e1: "h0 = h @ e1" using a by (rule alloc_extends_elim)
  obtain e2 where e2: "h2 = h0 @ e2" using b by (rule alloc_props_extends_elim)
  from 11(3) a b have qs: "qs = (k, v0) # qs0" and h1: "h1 = h2" by auto
  have sc1: "same_cells (length h) (length h0) h0 h'"
    using 11(4) by (auto simp: same_cells_def h1 e2 nth_append)
  have out1: "outside (length h) (length h0) stk"
    using 11(5) by (auto simp: outside_def h1 e2)
  have sc2: "same_cells (length h0) (length h2) h2 h'"
    using 11(4) by (auto simp: same_cells_def h1 e1)
  have out2: "outside (length h0) (length h2) stk"
    using 11(5) by (auto simp: outside_def h1 e1)
  show ?case
    using 11(1) [OF a sc1 out1] 11(2) [OF a [symmetric] b sc2 out2] by (simp add: qs)
qed auto


lemma snapshot_frame:
  "snapshot h stk v = Inr t \<Longrightarrow> length h \<le> length h2 \<Longrightarrow> (\<forall>a<length h. h2 ! a = h ! a) \<Longrightarrow>
     snapshot h2 stk v = Inr t"
proof (induction h stk v arbitrary: t rule: snapshot.induct)
  case (6 h stk a)
  from 6(3) have a: "a \<notin> set stk" "a < length h"
    by (auto split: if_splits)
  then have cell: "h2 ! a = h ! a" and a2: "a < length h2"
    using 6(4,5) by auto
  show ?case
  proof (cases "h ! a")
    case (HArray vs)
    from 6(3) a HArray obtain ts where ts: "sequence (map (snapshot h (a # stk)) vs) = Inr ts" "t = TArr ts"
      by (auto split: sum.splits)
    from sequence_Inr_D [OF ts(1)] have m: "map (snapshot h (a # stk)) vs = map Inr ts" .
    have "snapshot h2 (a # stk) (vs ! i) = Inr (ts ! i)" if "i < length vs" for i
    proof -
      have "snapshot h (a # stk) (vs ! i) = Inr (ts ! i)"
        using m that by (metis length_map nth_map)
      moreover have "vs ! i \<in> set vs" using that by simp
      ultimately show ?thesis
        using 6(1) [OF _ HArray _ _ 6(4,5)] a by auto
    qed
    moreover have "length vs = length ts" using m by (metis length_map)
    ultimately have "map (snapshot h2 (a # stk)) vs = map Inr ts"
      by (simp add: list_eq_iff_nth_eq)
    then show ?thesis
      using a a2 cell HArray ts(2) by (simp add: sequence_map_Inr)
  next
    case (HObject ps)
    from 6(3) a HObject obtain ts where ts: "sequence (map (\<lambda>p. snapshot h (a # stk) (snd p)) ps) = Inr ts"
       "t = TObj (zip (map fst ps) ts)"
      by (auto split: sum.splits)
    from sequence_Inr_D [OF ts(1)] have m: "map (\<lambda>p. snapshot h (a # stk) (snd p)) ps = map Inr ts" .
    have "snapshot h2 (a # stk) (snd (ps ! i)) = Inr (ts ! i)" if "i < length ps" for i
    proof -
      have "snapshot h (a # stk) (snd (ps ! i)) = Inr (ts ! i)"
        using m that by (metis (mono_tags, lifting) length_map nth_map)
      moreover have "ps ! i \<in> set ps" using that by simp
      ultimately show ?thesis
        using 6(2) [OF _ HObject _ _ 6(4,5)] a by auto
    qed
    moreover have "length ps = length ts" using m by (metis length_map)
    ultimately have "map (\<lambda>p. snapshot h2 (a # stk) (snd p)) ps = map Inr ts"
      by (simp add: list_eq_iff_nth_eq)
    then show ?thesis
      using a a2 cell HObject ts(2) by (simp add: sequence_map_Inr)
  qed
qed auto

lemma checksum_by_snapshot:
  "snapshot h [] v = Inr t \<Longrightarrow>
     JSON_stringify h v = Inr (map_option render (json_of t))"
  by (simp add: JSON_stringify_def)

lemma stringify_SomeD:
  assumes "JSON_stringify h v = Inr (Some s)"
  obtains t j where "snapshot h [] v = Inr t" "json_of t = Some j" "s = render j"
  using assms by (auto simp: JSON_stringify_def split: sum.splits)

lemma json_of_ref: "snapshot h stk (VRef a) = Inr t \<Longrightarrow> json_of t \<noteq> None"
  by (auto split: if_splits hobj.splits sum.splits)

lemma deepClone_snapshot:
  assumes "snapshot h [] v = Inr t" "json_of t = Some j" "deepClone h v = (v', h1)"
  shows "(\<exists>ext. h1 = h @ ext) \<and>
         (\<forall>h'. same_cells (length h) (length h1) h1 h' \<longrightarrow> snapshot h' [] v' = Inr j)"
proof (cases v)
  case (VRef a)
  with assms have al: "alloc j h = (v', h1)"
    by (simp add: deepClone_def)
  obtain ext where "h1 = h @ ext" using al by (rule alloc_extends_elim)
  moreover have "snapshot h' [] v' = Inr j" if "same_cells (length h) (length h1) h1 h'" for h'
    by (rule alloc_snapshot(1) [OF al that]) (simp add: outside_def)
  ultimately show ?thesis by blast
qed (use assms in \<open>auto simp: deepClone_def\<close>)


lemma calculateChecksum_eq:
  "snapshot h [] v = Inr t \<Longrightarrow> json_of t = Some j \<Longrightarrow> calculateChecksum h v = Inr (checksum_text (render j))"
  by (simp add: calculateChecksum_def JSON_stringify_def)

lemma get_result:
  assumes "snapshot h [] (currentValue g) = Inr t" "json_of t = Some j"
  shows "\<exists>r h1. get now h g = (Inr r, h1, g\<lparr>accessCount := accessCount g + 1, lastAccessTime := now\<rparr>) \<and>
           deepClone h (currentValue g) = (r, h1)"
  using calculateChecksum_eq [OF assms]
  by (cases "deepClone h (currentValue g)") (simp add: get_def isChecksumValid_def Let_def)

lemma verify_eq:
  assumes "snapshot h [] (currentValue g) = Inr t" "json_of t = Some j"
  shows "verify env h g =
           Inr (checksum_text (render j) \<in> set (checksums g) \<and>
                (case verificationCallback g of Some f \<Rightarrow> f env | None \<Rightarrow> True))"
  using calculateChecksum_eq [OF assms]
  by (auto simp: verify_def isChecksumValid_def Let_def)

text \<open>
  C9. When the stored value is JSON-serialisable, get() returns a deep clone of it: the
  returned value is built from fresh cells only, its content is the JSON image of the
  stored value, whatever the older cells hold. Whatever is written afterwards to the
  cells of the clone or to later cells, the stored value, its checksum, verify() and a
  later get() give what they gave before.
\<close>

theorem get_returns_deep_clone:
  assumes "JSON_stringify h (currentValue g) = Inr (Some s)"
  shows "\<exists>r h1 t j.
           get now h g = (Inr r, h1, g\<lparr>accessCount := accessCount g + 1, lastAccessTime := now\<rparr>) \<and>
           snapshot h [] (currentValue g) = Inr t \<and> json_of t = Some j \<and>
           (\<exists>ext. h1 = h @ ext) \<and>
           (\<forall>h'. same_cells (length h) (length h1) h1 h' \<longrightarrow> snapshot h' [] r = Inr j) \<and>
           (\<forall>h2. same_cells 0 (length h) h h2 \<longrightarrow>
              snapshot h2 [] (currentValue g) = Inr t \<and>
              calculateChecksum h2 (currentValue g) = calculateChecksum h (currentValue g) \<and>
              verify env h2 (g\<lparr>accessCount := accessCount g + 1, lastAccessTime := now\<rparr>) = verify env h g \<and>
              (\<exists>r' h3. get now' h2 (g\<lparr>accessCount := accessCount g + 1, lastAccessTime := now\<rparr>) =
                          (Inr r', h3, g\<lparr>accessCount := accessCount g + 2, lastAccessTime := now'\<rparr>) \<and>
                        (\<forall>h'. same_cells (length h2) (length h3) h3 h' \<longrightarrow> snapshot h' [] r' = Inr j)))"
proof -
  let ?g1 = "g\<lparr>accessCount := accessCount g + 1, lastAccessTime := now\<rparr>"
  let ?g2 = "g\<lparr>accessCount := accessCount g + 2, lastAccessTime := now'\<rparr>"
  obtain t j where t: "snapshot h [] (currentValue g) = Inr t" and j: "json_of t = Some j"
    using assms by (rule stringify_SomeD)
  obtain r h1 where g: "get now h g = (Inr r, h1, ?g1)" and dc: "deepClone h (currentValue g) = (r, h1)"
    using get_result [OF t j] by blast
  from deepClone_snapshot [OF t j dc]
  have c1: "\<exists>ext. h1 = h @ ext"
    and c2: "\<forall>h'. same_cells (length h) (length h1) h1 h' \<longrightarrow> snapshot h' [] r = Inr j"
    by blast+
  have later: "snapshot h2 [] (currentValue g) = Inr t \<and>
              calculateChecksum h2 (currentValue g) = calculateChecksum h (currentValue g) \<and>
              verify env h2 ?g1 = verify env h g \<and>
              (\<exists>r' h3. get now' h2 ?g1 = (Inr r', h3, ?g2) \<and>
                        (\<forall>h'. same_cells (length h2) (length h3) h3 h' \<longrightarrow> snapshot h' [] r' = Inr j))"
    if sc: "same_cells 0 (length h) h h2" for h2
  proof -
    from sc have t2: "snapshot h2 [] (currentValue g) = Inr t"
      by (intro snapshot_frame [OF t]) (auto simp: same_cells_def)
    then have t2': "snapshot h2 [] (currentValue ?g1) = Inr t" by simp
    have e1: "calculateChecksum h2 (currentValue g) = calculateChecksum h (currentValue g)"
      by (simp only: calculateChecksum_eq [OF t j] calculateChecksum_eq [OF t2 j])
    have e2: "verify env h2 ?g1 = verify env h g"
      by (subst verify_eq [OF t2' j], subst verify_eq [OF t j]) simp
    obtain r' h3 where
      g': "get now' h2 ?g1 = (Inr r', h3, ?g1\<lparr>accessCount := accessCount ?g1 + 1, lastAccessTime := now'\<rparr>)"
      and dc': "deepClone h2 (currentValue ?g1) = (r', h3)"
      using get_result [OF t2' j] by blast
    have g'': "get now' h2 ?g1 = (Inr r', h3, ?g2)"
      using g' by simp
    have e3: "\<forall>h'. same_cells (length h2) (length h3) h3 h' \<longrightarrow> snapshot h' [] r' = Inr j"
      using deepClone_snapshot [OF t2' j dc'] by blast
    have e4: "\<exists>r' h3. get now' h2 ?g1 = (Inr r', h3, ?g2) \<and>
                (\<forall>h'. same_cells (length h2) (length h3) h3 h' \<longrightarrow> snapshot h' [] r' = Inr j)"
      by (rule exI [where x = r'], rule exI [where x = h3]) (intro conjI g'' e3)
    show ?thesis
      by (intro conjI t2 e1 e2 e4)
  qed
  have l: "\<forall>h2. same_cells 0 (length h) h h2 \<longrightarrow>
              snapshot h2 [] (currentValue g) = Inr t \<and>
              calculateChecksum h2 (currentValue g) = calculateChecksum h (currentValue g) \<and>
              verify env h2 ?g1 = verify env h g \<and>
              (\<exists>r' h3. get now' h2 ?g1 = (Inr r', h3, ?g2) \<and>
                        (\<forall>h'. same_cells (length h2) (length h3) h3 h' \<longrightarrow> snapshot h' [] r' = Inr j))"
    by (intro allI impI later)
  show ?thesis
    by (rule exI [where x = r], rule exI [where x = h1], rule exI [where x = t],
        rule exI [where x = j]) (intro conjI g t j c1 c2 l)
qed

theorem get_returns_deep_clone_witness:
  "JSON_stringify stats_heap (currentValue stats_value)
     = Inr (Some (render (TObj [(''hp'', TNum 100)]))) \<and>
   (\<exists>r h1 t j.
      get 1 stats_heap stats_value
        = (Inr r, h1, stats_value\<lparr>accessCount := accessCount stats_value + 1, lastAccessTime := 1\<rparr>) \<and>
      snapshot stats_heap [] (currentValue stats_value) = Inr t \<and> json_of t = Some j \<and>
      (\<exists>ext. h1 = stats_heap @ ext) \<and>
      (\<forall>h'. same_cells (length stats_heap) (length h1) h1 h' \<longrightarrow> snapshot h' [] r = Inr j) \<and>
      (\<forall>h2. same_cells 0 (length stats_heap) stats_heap h2 \<longrightarrow>
         snapshot h2 [] (currentValue stats_value) = Inr t \<and>
         calculateChecksum h2 (currentValue stats_value)
           = calculateChecksum stats_heap (currentValue stats_value) \<and>
         verify True h2 (stats_value\<lparr>accessCount := accessCount stats_value + 1, lastAccessTime := 1\<rparr>)
           = verify True stats_heap stats_value \<and>
         (\<exists>r' h3. get 2 h2 (stats_value\<lparr>accessCount := accessCount stats_value + 1, lastAccessTime := 1\<rparr>)
                     = (Inr r', h3, stats_value\<lparr>accessCount := accessCount stats_value + 2,
                                                lastAccessTime := 2\<rparr>) \<and>
                   (\<forall>h'. same_cells (length h2) (length h3) h3 h' \<longrightarrow> snapshot h' [] r' = Inr j))))"
proof -
  have h: "JSON_stringify stats_heap (currentValue stats_value)
     = Inr (Some (render (TObj [(''hp'', TNum 100)])))"
    by (simp add: stats_value_def stats_heap_def JSON_stringify_def)
  show ?thesis
    by (rule conjI [OF h get_returns_deep_clone [OF h]])
qed

lemma same_cells_refl: "same_cells lo (length h) h h"
  by (simp add: same_cells_def)

lemma deepClone_keeps:
  assumes "snapshot h [] v = Inr t" "json_of t = Some j" "deepClone h v = (v', h1)"
  shows "same_cells 0 (length h) h h1"
proof -
  from deepClone_snapshot [OF assms] have "\<exists>ext. h1 = h @ ext" by (rule conjunct1)
  then obtain ext where "h1 = h @ ext" ..
  then show ?thesis by (simp add: same_cells_def nth_append)
qed

lemma deepClone_self:
  assumes "snapshot h [] v = Inr t" "json_of t = Some j" "deepClone h v = (v', h1)"
  shows "snapshot h1 [] v' = Inr j"
proof -
  from deepClone_snapshot [OF assms]
  have "\<forall>h'. same_cells (length h) (length h1) h1 h' \<longrightarrow> snapshot h' [] v' = Inr j"
    by (rule conjunct2)
  from this [rule_format, OF same_cells_refl] show ?thesis .
qed

text \<open>
  C7 as the code has it. For a container whose stored value is serialisable and whose
  verification callback, if any, answers true, and for every value v that JSON represents
  exactly (its content has no undefined in it), set(v) returns normally; right after
  it, with no write to the container or the heap in between, the stored value and the
  value get() returns have the content of v, verify() is true before and after that
  get(), and the single stored checksum is the checksum of the current value.
\<close>

theorem set_then_get_and_verify:
  assumes cur: "JSON_stringify h (currentValue g) = Inr (Some s0)"
    and v: "snapshot h [] v = Inr t" "json_of t = Some t"
    and cb: "\<forall>f. verificationCallback g = Some f \<longrightarrow> f env"
  shows "\<exists>h1 g1. set_value now v h g = (Inr (), h1, g1) \<and>
           snapshot h1 [] (currentValue g1) = Inr t \<and>
           calculateChecksum h1 (currentValue g1) = Inr (checksum_text (render t)) \<and>
           checksums g1 = [checksum_text (render t)] \<and>
           verify env h1 g1 = Inr True \<and>
           (\<exists>r h2 g2. get now' h1 g1 = (Inr r, h2, g2) \<and>
              snapshot h2 [] r = Inr t \<and>
              verify env h2 g2 = Inr True \<and>
              calculateChecksum h2 (currentValue g2) = Inr (checksum_text (render t)) \<and>
              checksums g2 = [checksum_text (render t)])"
proof -
  let ?g0 = "g\<lparr>accessCount := accessCount g + 1, lastAccessTime := now\<rparr>"
  obtain t0 j0 where t0: "snapshot h [] (currentValue g) = Inr t0" and j0: "json_of t0 = Some j0"
    using cur by (rule stringify_SomeD)
  obtain v' h1 where dc: "deepClone h v = (v', h1)" by (cases "deepClone h v")
  let ?g1 = "?g0\<lparr>currentValue := v', checksums := [checksum_text (render t)]\<rparr>"
  have sn: "snapshot h1 [] v' = Inr t"
    by (rule deepClone_self [OF v dc])
  have cs: "calculateChecksum h1 v' = Inr (checksum_text (render t))"
    by (rule calculateChecksum_eq [OF sn v(2)])
  have ok: "isChecksumValid h ?g0 = Inr (checksum_text (render j0) \<in> set (checksums g))"
    using calculateChecksum_eq [OF t0 j0] by (simp add: isChecksumValid_def)
  have up: "updateChecksums h1 (?g0\<lparr>currentValue := v'\<rparr>) = Inr ?g1"
    using cs by (simp add: updateChecksums_def)
  have set: "set_value now v h g = (Inr (), h1, ?g1)"
    using ok dc up by (simp add: set_value_def Let_def)
  have sn1: "snapshot h1 [] (currentValue ?g1) = Inr t" using sn by simp
  have cbv: "case verificationCallback g of Some f \<Rightarrow> f env | None \<Rightarrow> True"
    using cb by (cases "verificationCallback g") simp_all
  have ver: "verify env h1 ?g1 = Inr True"
    by (subst verify_eq [OF sn1 v(2)]) (use cbv in simp)
  obtain r h2 where g: "get now' h1 ?g1 = (Inr r, h2, ?g1\<lparr>accessCount := accessCount ?g1 + 1, lastAccessTime := now'\<rparr>)"
    and dc2: "deepClone h1 (currentValue ?g1) = (r, h2)"
    using get_result [OF sn1 v(2)] by blast
  let ?g2 = "?g1\<lparr>accessCount := accessCount ?g1 + 1, lastAccessTime := now'\<rparr>"
  have r: "snapshot h2 [] r = Inr t"
    by (rule deepClone_self [OF sn1 v(2) dc2])
  have keep: "same_cells 0 (length h1) h1 h2"
    by (rule deepClone_keeps [OF sn1 v(2) dc2])
  have sn2': "snapshot h2 [] v' = Inr t"
    using keep by (intro snapshot_frame [OF sn]) (simp_all add: same_cells_def)
  have sn2: "snapshot h2 [] (currentValue ?g2) = Inr t"
    using sn2' by simp
  have ver2: "verify env h2 ?g2 = Inr True"
    by (subst verify_eq [OF sn2 v(2)]) (use cbv in simp)
  have cs2: "calculateChecksum h2 (currentValue ?g2) = Inr (checksum_text (render t))"
    by (rule calculateChecksum_eq [OF sn2 v(2)])
  have cs1: "calculateChecksum h1 (currentValue ?g1) = Inr (checksum_text (render t))"
    using cs by simp
  have k1: "checksums ?g1 = [checksum_text (render t)]" by simp
  have k2: "checksums ?g2 = [checksum_text (render t)]" by simp
  have inner: "\<exists>r h2 g2. get now' h1 ?g1 = (Inr r, h2, g2) \<and>
              snapshot h2 [] r = Inr t \<and>
              verify env h2 g2 = Inr True \<and>
              calculateChecksum h2 (currentValue g2) = Inr (checksum_text (render t)) \<and>
              checksums g2 = [checksum_text (render t)]"
    by (rule exI [where x = r], rule exI [where x = h2], rule exI [where x = "?g2"])
       (intro conjI g r ver2 cs2 k2)
  show ?thesis
    by (rule exI [where x = h1], rule exI [where x = "?g1"])
       (intro conjI set sn1 cs1 k1 ver inner)
qed

theorem set_then_get_and_verify_witness:
  "\<exists>h1 g1. set_value 1 (VRef 0) stats_heap coins_value = (Inr (), h1, g1) \<and>
           snapshot h1 [] (currentValue g1) = Inr (TObj [(''hp'', TNum 100)]) \<and>
           calculateChecksum h1 (currentValue g1)
             = Inr (checksum_text (render (TObj [(''hp'', TNum 100)]))) \<and>
           checksums g1 = [checksum_text (render (TObj [(''hp'', TNum 100)]))] \<and>
           verify True h1 g1 = Inr True \<and>
           (\<exists>r h2 g2. get 2 h1 g1 = (Inr r, h2, g2) \<and>
              snapshot h2 [] r = Inr (TObj [(''hp'', TNum 100)]) \<and>
              verify True h2 g2 = Inr True \<and>
              calculateChecksum h2 (currentValue g2)
                = Inr (checksum_text (render (TObj [(''hp'', TNum 100)]))) \<and>
              checksums g2 = [checksum_text (render (TObj [(''hp'', TNum 100)]))])"
proof -
  have h1: "JSON_stringify stats_heap (currentValue coins_value) = Inr (Some ''100'')"
    by (simp add: coins_value_def JSON_stringify_def number_text_def digit_char_def)
  have h2: "snapshot stats_heap [] (VRef 0) = Inr (TObj [(''hp'', TNum 100)])"
    by (simp add: stats_heap_def)
  have h3: "json_of (TObj [(''hp'', TNum 100)]) = Some (TObj [(''hp'', TNum 100)])"
    by simp
  have h4: "\<forall>f. verificationCallback coins_value = Some f \<longrightarrow> f True"
    by (simp add: coins_value_def)
  show ?thesis
    by (rule set_then_get_and_verify [OF h1 h2 h3 h4])
qed

text \<open>
  C7 as stated fails. After \<open>set([1, undefined])\<close>, \<open>get()\<close> returns
  \<open>[1, null]\<close>. With a callback that answers false, \<open>verify()\<close> is false right
  after \<open>set(5)\<close>. And \<open>set(undefined)\<close> raises a TypeError.
\<close>

theorem set_then_get_differs:
  "snapshot sparse_heap [] (VRef 0) = Inr (TArr [TNum 1, TUndefined]) \<and>
   fst (set_value 1 (VRef 0) sparse_heap coins_value) = Inr () \<and>
   fst (get 2 (fst (snd (set_value 1 (VRef 0) sparse_heap coins_value)))
              (snd (snd (set_value 1 (VRef 0) sparse_heap coins_value)))) = Inr (VRef 2) \<and>
   snapshot (fst (snd (get 2 (fst (snd (set_value 1 (VRef 0) sparse_heap coins_value)))
                            (snd (snd (set_value 1 (VRef 0) sparse_heap coins_value))))))
     [] (VRef 2) = Inr (TArr [TNum 1, TNull]) \<and>
   fst (set_value 1 (VNum 5) [] distrusted_value) = Inr () \<and>
   verify True (fst (snd (set_value 1 (VNum 5) [] distrusted_value)))
     (snd (snd (set_value 1 (VNum 5) [] distrusted_value))) = Inr False \<and>
   fst (set_value 1 VUndefined [] coins_value) = Inl TypeError"
  by (simp add: set_value_def get_def verify_def isChecksumValid_def updateChecksums_def
      calculateChecksum_def JSON_stringify_def deepClone_def Let_def number_text_def
      digit_char_def sparse_heap_def coins_value_def distrusted_value_def)

section \<open>The shield: proofs\<close>

lemma Math_random_fields [simp]:
  "calls (snd (Math_random rnd s)) = calls s"
  "events (snd (Math_random rnd s)) = events s"
  "isRunning (snd (Math_random rnd s)) = isRunning s"
  "intervalId (snd (Math_random rnd s)) = intervalId s"
  "protectedValues (snd (Math_random rnd s)) = protectedValues s"
  "scanner (snd (Math_random rnd s)) = scanner s"
  by (simp_all add: Math_random_def)

lemma enter_fields [simp]:
  "calls (enter c s) = calls s @ [c]"
  "events (enter c s) = events s"
  "isRunning (enter c s) = isRunning s"
  "intervalId (enter c s) = intervalId s"
  "protectedValues (enter c s) = protectedValues s"
  "scanner (enter c s) = scanner s"
  "isVerifying (enter c s) = isVerifying s"
  by (simp_all add: enter_def)

lemma probe_apps:
  "calls (snd (detectCheatToolApps rnd s)) = calls s @ [DetectCheatToolApps]"
  "untouched s (snd (detectCheatToolApps rnd s))"
  "detected (fst (detectCheatToolApps rnd s)) \<Longrightarrow>
     detectionType (fst (detectCheatToolApps rnd s)) = Some ''installed_package''"
  by (auto simp: detectCheatToolApps_def Math_random_def enter_def untouched_def not_detected_def
      split: prod.splits if_splits)

lemma probe_processes:
  "calls (snd (detectSuspiciousProcesses rnd s)) = calls s @ [DetectSuspiciousProcesses]"
  "untouched s (snd (detectSuspiciousProcesses rnd s))"
  "detected (fst (detectSuspiciousProcesses rnd s)) \<Longrightarrow>
     detectionType (fst (detectSuspiciousProcesses rnd s)) = Some ''running_process''"
  by (auto simp: detectSuspiciousProcesses_def Math_random_def enter_def untouched_def not_detected_def
      split: prod.splits if_splits)

lemma probe_signatures:
  "calls (snd (detectMemorySignatures rnd s)) = calls s @ [DetectMemorySignatures]"
  "untouched s (snd (detectMemorySignatures rnd s))"
  "detected (fst (detectMemorySignatures rnd s)) \<Longrightarrow>
     detectionType (fst (detectMemorySignatures rnd s)) = Some ''memory_signature''"
  by (auto simp: detectMemorySignatures_def Math_random_def enter_def untouched_def not_detected_def
      split: prod.splits if_splits)

lemma probe_debugger:
  "calls (snd (detectDebugger rnd s)) = calls s @ [DetectDebugger]"
  "untouched s (snd (detectDebugger rnd s))"
  "detected (fst (detectDebugger rnd s)) \<Longrightarrow>
     detectionType (fst (detectDebugger rnd s)) = Some ''debugger''"
  by (auto simp: detectDebugger_def Math_random_def enter_def untouched_def not_detected_def
      split: prod.splits if_splits)

lemma probe_emulator:
  "calls (snd (detectEmulator rnd s)) = calls s @ [DetectEmulator]"
  "untouched s (snd (detectEmulator rnd s))"
  "detected (fst (detectEmulator rnd s)) \<Longrightarrow>
     detectionType (fst (detectEmulator rnd s)) = Some ''emulator''"
  by (auto simp: detectEmulator_def Math_random_def enter_def untouched_def not_detected_def
      split: prod.splits if_splits)

lemma untouched_trans: "untouched s s1 \<Longrightarrow> untouched s1 s2 \<Longrightarrow> untouched s s2"
  by (simp add: untouched_def)

lemma detectCheatTools_order:
  "\<exists>n. 1 \<le> n \<and> n \<le> 5 \<and>
       calls (snd (detectCheatTools rnd s)) = calls s @ take n tool_probes \<and>
       (if detected (fst (detectCheatTools rnd s))
        then detectionType (fst (detectCheatTools rnd s)) = Some (probe_types ! (n - 1))
        else n = 5) \<and>
       untouched s (snd (detectCheatTools rnd s))"
proof -
  obtain a s1 where a: "detectCheatToolApps rnd s = (a, s1)" by (cases "detectCheatToolApps rnd s")
  obtain p s2 where p: "detectSuspiciousProcesses rnd s1 = (p, s2)" by (cases "detectSuspiciousProcesses rnd s1")
  obtain m s3 where m: "detectMemorySignatures rnd s2 = (m, s3)" by (cases "detectMemorySignatures rnd s2")
  obtain d s4 where d: "detectDebugger rnd s3 = (d, s4)" by (cases "detectDebugger rnd s3")
  obtain e s5 where e: "detectEmulator rnd s4 = (e, s5)" by (cases "detectEmulator rnd s4")
  note pa = probe_apps [where rnd = rnd and s = s, unfolded a, simplified]
  note pp = probe_processes [where rnd = rnd and s = s1, unfolded p, simplified]
  note pm = probe_signatures [where rnd = rnd and s = s2, unfolded m, simplified]
  note pd = probe_debugger [where rnd = rnd and s = s3, unfolded d, simplified]
  note pe = probe_emulator [where rnd = rnd and s = s4, unfolded e, simplified]
  have u2: "untouched s s2" using pa(2) pp(2) by (rule untouched_trans)
  have u3: "untouched s s3" using u2 pm(2) by (rule untouched_trans)
  have u4: "untouched s s4" using u3 pd(2) by (rule untouched_trans)
  have u5: "untouched s s5" using u4 pe(2) by (rule untouched_trans)
  consider "detected a" | "\<not> detected a" "detected p" | "\<not> detected a" "\<not> detected p" "detected m"
    | "\<not> detected a" "\<not> detected p" "\<not> detected m" "detected d"
    | "\<not> detected a" "\<not> detected p" "\<not> detected m" "\<not> detected d" "detected e"
    | "\<not> detected a" "\<not> detected p" "\<not> detected m" "\<not> detected d" "\<not> detected e"
    by blast
  then show ?thesis
  proof cases
    case 1
    then show ?thesis
      using pa by (intro exI [where x = 1]) (simp add: detectCheatTools_def a tool_probes_def probe_types_def)
  next
    case 2
    then show ?thesis
      using pa pp u2 by (intro exI [where x = 2]) (simp add: detectCheatTools_def a p tool_probes_def probe_types_def)
  next
    case 3
    then show ?thesis
      using pa pp pm u3 by (intro exI [where x = 3]) (simp add: detectCheatTools_def a p m tool_probes_def probe_types_def)
  next
    case 4
    then show ?thesis
      using pa pp pm pd u4 by (intro exI [where x = 4]) (simp add: detectCheatTools_def a p m d tool_probes_def probe_types_def)
  next
    case 5
    then show ?thesis
      using pa pp pm pd pe u5 by (intro exI [where x = 5]) (simp add: detectCheatTools_def a p m d e tool_probes_def probe_types_def)
  next
    case 6
    then show ?thesis
      using pa pp pm pd pe u5 by (intro exI [where x = 5]) (simp add: detectCheatTools_def a p m d e tool_probes_def probe_types_def not_detected_def)
  qed
qed


lemma scan_effects:
  "calls (snd (scanMemoryForTampering now mm s)) = calls s @ [ScanMemoryForTampering]"
  "events (snd (scanMemoryForTampering now mm s)) = events s"
  "isRunning (snd (scanMemoryForTampering now mm s)) = isRunning s"
  "intervalId (snd (scanMemoryForTampering now mm s)) = intervalId s"
  "protectedValues (snd (scanMemoryForTampering now mm s)) = protectedValues s"
  by (simp_all add: scanMemoryForTampering_def Let_def enter_def)

lemma handle_effects:
  "calls (handleCheatDetected ev s) = calls s"
  "events (handleCheatDetected ev s) = events s @ [ev]"
  "isRunning (handleCheatDetected ev s) = isRunning s"
  "intervalId (handleCheatDetected ev s) = intervalId s"
  "protectedValues (handleCheatDetected ev s) = protectedValues s"
  by (simp_all add: handleCheatDetected_def Let_def)

lemma verify_each_effects:
  "verify_each h kvs ks s = (Inr ks', s') \<Longrightarrow>
     calls s' = calls s @ map (VerifyValue \<circ> fst) kvs \<and> events s' = events s \<and>
     isRunning s' = isRunning s \<and> intervalId s' = intervalId s"
proof (induction kvs arbitrary: ks s)
  case Nil
  then show ?case by simp
next
  case (Cons kv kvs)
  obtain k v where kv: "kv = (k, v)" by (cases kv)
  from Cons.prems obtain ok where
    ok: "verify (isVerifying (enter (VerifyValue k) s)) h v = Inr ok"
    and rest: "verify_each h kvs (if ok then ks else ks @ [k]) (enter (VerifyValue k) s) = (Inr ks', s')"
    by (auto simp: kv Let_def split: sum.splits)
  from Cons.IH [OF rest] show ?case
    by (simp add: kv)
qed

lemma runChecks_effects:
  assumes "runChecks rnd now mm h s = (Inr crit, s1)"
  shows "calls s1 = calls (snd (detectCheatTools rnd s)) @ [ScanMemoryForTampering]
                     @ map (VerifyValue \<circ> fst) (protectedValues s) \<and>
         isRunning s1 = isRunning s \<and> intervalId s1 = intervalId s \<and>
         (\<exists>evs. events s1 = events s @ evs \<and> (crit \<longleftrightarrow> evs \<noteq> []) \<and>
                (\<forall>e\<in>set evs. ev_severity e = ''critical'' \<longleftrightarrow> ev_type e = TOOL_DETECTED) \<and>
                (detected (fst (detectCheatTools rnd s)) \<longleftrightarrow> (\<exists>e\<in>set evs. ev_type e = TOOL_DETECTED)))"
proof -
  obtain t sa where t: "detectCheatTools rnd s = (t, sa)" by (cases "detectCheatTools rnd s")
  from detectCheatTools_order [of rnd s] have u: "untouched s sa"
    by (auto simp: t)
  let ?e1 = "\<lparr> ev_type = TOOL_DETECTED, ev_severity = ''critical'', ev_details = ToolDetails t,
               ev_timestamp = now \<rparr>"
  let ?sb = "if detected t then handleCheatDetected ?e1 sa else sa"
  obtain m sc where m: "scanMemoryForTampering now mm ?sb = (m, sc)"
    by (cases "scanMemoryForTampering now mm ?sb")
  note se = scan_effects [where now = now and mm = mm and s = "?sb", unfolded m, simplified]
  let ?e2 = "\<lparr> ev_type = MEMORY_TAMPERING, ev_severity = ''high'',
               ev_details = ScanDetails (scanReason m), ev_timestamp = now \<rparr>"
  let ?sd = "if tampered m then handleCheatDetected ?e2 sc else sc"
  let ?se = "?sd\<lparr>isVerifying := True\<rparr>"
  obtain r sf where r: "verify_each h (protectedValues ?se) [] ?se = (r, sf)"
    by (cases "verify_each h (protectedValues ?se) [] ?se")
  have r': "verify_each h (protectedValues ?sd) [] ?se = (r, sf)"
    using r by simp
  from assms obtain ks where ks: "r = Inr ks"
    by (cases r) (auto simp: runChecks_def t m r' Let_def)
  note ve = verify_each_effects [OF r [unfolded ks]]
  let ?e3 = "\<lparr> ev_type = VALUE_TAMPERING, ev_severity = ''high'', ev_details = TamperedKeys ks,
               ev_timestamp = now \<rparr>"
  let ?sg = "sf\<lparr>isVerifying := False\<rparr>"
  have s1: "s1 = (if ks \<noteq> [] then handleCheatDetected ?e3 ?sg else ?sg)"
    and crit: "crit = (detected t \<or> tampered m \<or> ks \<noteq> [])"
    using assms by (auto simp: runChecks_def t m r' ks Let_def)
  have pv: "protectedValues ?se = protectedValues s"
    using u se by (auto simp: untouched_def handle_effects)
  let ?evs = "(if detected t then [?e1] else []) @ (if tampered m then [?e2] else [])
               @ (if ks \<noteq> [] then [?e3] else [])"
  have c: "calls s1 = calls sa @ [ScanMemoryForTampering] @ map (VerifyValue \<circ> fst) (protectedValues s)"
    using ve se pv by (auto simp: s1 handle_effects)
  have f: "isRunning s1 = isRunning s \<and> intervalId s1 = intervalId s"
    using ve se u by (auto simp: s1 handle_effects untouched_def)
  have ev: "events s1 = events s @ ?evs"
    using ve se u by (auto simp: s1 handle_effects untouched_def)
  have "\<exists>evs. events s1 = events s @ evs \<and> (crit \<longleftrightarrow> evs \<noteq> []) \<and>
                (\<forall>e\<in>set evs. ev_severity e = ''critical'' \<longleftrightarrow> ev_type e = TOOL_DETECTED) \<and>
                (detected t \<longleftrightarrow> (\<exists>e\<in>set evs. ev_type e = TOOL_DETECTED))"
    by (rule exI [where x = "?evs"]) (auto simp: ev crit)
  then show ?thesis
    using c f by (simp add: t)
qed


text \<open>
  C4 as the code has it. On a shield that is already running, start() returns true
  without running a check. Otherwise it first runs one full check; when the check
  completes, start() returns false without entering Running (isRunning stays false, no
  timer is set) exactly when the check was positive, that is when it raised at least one
  detection event, whatever its severity; otherwise it enters Running and returns true.
\<close>

theorem start_runs_one_check:
  "(isRunning s \<longrightarrow> start rnd now mm timer h s = (Inr True, s)) \<and>
   (\<not> isRunning s \<longrightarrow>
      (\<forall>crit s1. runChecks rnd now mm h s = (Inr crit, s1) \<longrightarrow>
         start rnd now mm timer h s =
           (if crit then (Inr False, s1)
            else (Inr True, s1\<lparr>isRunning := True, intervalId := Some timer\<rparr>)) \<and>
         \<not> isRunning s1 \<and> intervalId s1 = intervalId s \<and>
         (\<exists>evs. events s1 = events s @ evs \<and> (crit \<longleftrightarrow> evs \<noteq> []))))"
proof (intro conjI impI allI)
  assume "isRunning s"
  then show "start rnd now mm timer h s = (Inr True, s)" by (simp add: start_def)
next
  fix crit s1
  assume nr: "\<not> isRunning s" and rc: "runChecks rnd now mm h s = (Inr crit, s1)"
  show "start rnd now mm timer h s =
           (if crit then (Inr False, s1)
            else (Inr True, s1\<lparr>isRunning := True, intervalId := Some timer\<rparr>))"
    using nr by (simp add: start_def rc)
  from runChecks_effects [OF rc] nr
  show "\<not> isRunning s1" "intervalId s1 = intervalId s"
    "\<exists>evs. events s1 = events s @ evs \<and> (crit \<longleftrightarrow> evs \<noteq> [])"
    by blast+
qed

theorem start_runs_one_check_witness:
  "\<not> isRunning (fresh_shield\<lparr>scanner := (scanner fresh_shield)\<lparr>lastScanTime := 1699999999000\<rparr>\<rparr>) \<and>
   start quiet 1700000000000 [] 7 []
     (fresh_shield\<lparr>scanner := (scanner fresh_shield)\<lparr>lastScanTime := 1699999999000\<rparr>\<rparr>)
   = (Inr True,
      (snd (runChecks quiet 1700000000000 [] []
             (fresh_shield\<lparr>scanner := (scanner fresh_shield)\<lparr>lastScanTime := 1699999999000\<rparr>\<rparr>)))
        \<lparr>isRunning := True, intervalId := Some 7\<rparr>)"
proof -
  let ?s = "fresh_shield\<lparr>scanner := (scanner fresh_shield)\<lparr>lastScanTime := 1699999999000\<rparr>\<rparr>"
  have n: "\<not> isRunning ?s"
    by (simp add: fresh_shield_def new_GuardianShield_def)
  have r: "runChecks quiet 1700000000000 [] [] ?s
      = (Inr False, snd (runChecks quiet 1700000000000 [] [] ?s))"
    by (simp add: runChecks_def detectCheatTools_def detectCheatToolApps_def
        detectSuspiciousProcesses_def detectMemorySignatures_def detectDebugger_def
        detectEmulator_def scanMemoryForTampering_def Math_random_def enter_def quiet_def
        not_detected_def Let_def fresh_shield_def new_GuardianShield_def)
  from start_runs_one_check [of ?s quiet 1700000000000 "[]" 7 "[]"] n r
  show ?thesis by simp
qed

text \<open>
  C4 as stated fails. On a shield just built, with no probe of the tool detector firing,
  the first memory scan reports tampering (the time since the scan time 0 exceeds 5000
  ms); the only event raised has severity "high", none has "critical", and start()
  returns false without entering Running. And on a shield that is running, start()
  returns true and leaves the shield as it is, no probe entered, where a check would
  have been positive.
\<close>

theorem start_fails_without_critical:
  "fst (start quiet 1700000000000 [] 7 [] fresh_shield) = Inr False \<and>
   isRunning (snd (start quiet 1700000000000 [] 7 [] fresh_shield)) = False \<and>
   intervalId (snd (start quiet 1700000000000 [] 7 [] fresh_shield)) = None \<and>
   map ev_type (events (snd (start quiet 1700000000000 [] 7 [] fresh_shield)))
     = [MEMORY_TAMPERING] \<and>
   map ev_severity (events (snd (start quiet 1700000000000 [] 7 [] fresh_shield))) = [''high''] \<and>
   start noisy 1700000000000 [] 8 [] (fresh_shield\<lparr>isRunning := True, intervalId := Some 7\<rparr>)
     = (Inr True, fresh_shield\<lparr>isRunning := True, intervalId := Some 7\<rparr>) \<and>
   fst (runChecks noisy 1700000000000 [] []
          (fresh_shield\<lparr>isRunning := True, intervalId := Some 7\<rparr>)) = Inr True"
  by (simp add: start_def runChecks_def detectCheatTools_def detectCheatToolApps_def
      detectSuspiciousProcesses_def detectMemorySignatures_def detectDebugger_def
      detectEmulator_def scanMemoryForTampering_def handleCheatDetected_def
      applyCountermeasures_def Math_random_def enter_def quiet_def noisy_def
      not_detected_def Let_def fresh_shield_def new_GuardianShield_def)



end
